theory Spec2Isabelle
  imports Complex_Main "HOL-Library.Sublist"
begin

section \<open>Values, errors and the outside world\<close>

text \<open>
  The trader is Python. Its numbers are the values of a type \<open>'f\<close> of which nothing is
  assumed: \<open>+\<close>, \<open>-\<close>, \<open>*\<close>, \<open>/\<close>, the comparisons, \<open>0\<close> and \<open>1\<close> are whatever the
  arithmetic of the interpreter makes them (binary64 with its rounding, its infinities
  and NaN, or integers), so that a theorem about the operations of the trader holds for
  the value that the code computes, rounded as the code rounds it. \<open>x = 0\<close> is the
  test \<open>x == 0\<close>, which is also the test that \<open>/\<close> makes on its divisor (the two zeros
  of binary64, which neither \<open>==\<close> nor \<open>/\<close> tells apart, are one value). The scenarios
  of the spec are evaluated in the reals.

  An exception is a value of \<open>py_error\<close>. A cell of a database row or an argument of a
  call is a \<open>pyval\<close>: SQLite stores what it is given.
\<close>

datatype py_error = TypeError | ZeroDivisionError | IndexError

datatype 'f pyval = Num 'f | Str string

text \<open>
  Modelled from the spec: the enumeration \<open>constant.PositionStatus\<close> is imported by both
  source files and is not part of them; the spec names its three members.
\<close>

datatype PositionStatus = TRADABLE | PENDING_BUY | PENDING_SELL

text \<open>One row of the table \<open>trades\<close> of db.py, column by column: the key \<open>id\<close>,
  then stock, action, price, volume and profit as they were given, then the timestamp
  that the table sets at the insertion.\<close>

datatype 'f trade_row =
  TradeRow nat "'f pyval" "'f pyval" "'f pyval" "'f pyval" "'f pyval" nat

text \<open>One row of the table \<open>positions\<close> of db.py (the key \<open>stock\<close> is the key of the map).\<close>

record 'f position_row =
  volume_col :: 'f
  buy_count_col :: int
  last_buy_price_col :: 'f
  total_cost_col :: 'f
  avg_price_col :: 'f
  current_price_col :: 'f
  profit_col :: 'f
  status_col :: PositionStatus
  last_updated_col :: nat

text \<open>A call of \<open>send_asset\<close>, as the gateway saw it, with the side that made it
  and the answer it got.\<close>

datatype side = BUY | SELL

record 'f order =
  order_side :: side
  address :: string
  wallet :: int
  requested :: 'f
  offered :: 'f
  accepted :: bool

text \<open>
  Everything outside the process: the two tables, the orders sent so far, the log of
  \<open>update_position\<close> calls, and the number of interactions with the outside so far
  (the gateway, the clock), which indexes the answers of the gateway.
\<close>

record 'f world =
  trades :: "'f trade_row list"
  positions :: "string \<rightharpoonup> 'f position_row"
  orders :: "'f order list"
  upserts :: "string list"
  calls :: nat

text \<open>
  The functions that the source imports and that are not part of it (from chia, stock,
  datetime, and \<open>get_last_trade\<close>, which stock_trader.py imports from db and db.py does
  not define): they are parameters. An answer of the gateway or of the clock may depend
  on the number of interactions so far. \<open>get_stock_price_from_dinari\<close> gives the
  pair (bid, ask) that the source indexes with \<open>[0]\<close> and \<open>[1]\<close>;
  \<open>get_last_trade\<close> reads the database and gives a tuple or None.
\<close>

record 'f gateway =
  get_stock_price_from_dinari :: "nat \<Rightarrow> string \<Rightarrow> 'f \<times> 'f"
  send_asset :: "nat \<Rightarrow> string \<Rightarrow> int \<Rightarrow> 'f \<Rightarrow> 'f \<Rightarrow> bool"
  is_market_open :: "nat \<Rightarrow> bool"
  get_xch_price :: "nat \<Rightarrow> 'f option"
  add_token :: "nat \<Rightarrow> string \<Rightarrow> int"
  datetime_now :: "nat \<Rightarrow> nat"
  get_last_trade :: "'f world \<Rightarrow> string \<Rightarrow> 'f pyval list option"

text \<open>The options of \<open>constant.CONFIG\<close> that the source reads, and the two addresses
  of an entry of \<open>pools.STOCKS\<close>; both tables are parameters.\<close>

record 'f config =
  TRADING_SYMBOLS :: "string list"
  SELL_ONLY_SYMBOLS :: "string list"
  BUY_PERCENTAGE :: 'f
  INVESTED_XCH :: 'f
  MIN_PROFIT :: 'f
  MAX_BUY_TIMES :: int
  MAX_LOSS_PERCENTAGE :: 'f
  DCA_PERCENTAGE :: 'f
  buy_addr :: "string \<Rightarrow> string"
  sell_addr :: "string \<Rightarrow> string"

text \<open>The attributes of a \<open>StockTrader\<close> (the logger apart).\<close>

record 'f trader =
  stock :: string
  volume :: 'f
  buy_count :: int
  last_buy_price :: 'f
  total_cost :: 'f
  avg_price :: 'f
  current_price :: 'f
  profit :: 'f
  position_status :: PositionStatus
  last_updated :: nat
  wallet_id :: int

text \<open>
  An operator either gives a value or raises. A call of a method either returns or
  raises; an exception is caught nowhere in \<open>execute_trading\<close> around the operations
  of a trader, so it ends the process: what is left is the outside world and the
  attributes of the trader at the moment of the raise.
\<close>

type_synonym ('f, 'a) result = "(py_error \<times> 'f world \<times> 'f trader) + 'a"

definition bind_r :: "'e + 'a \<Rightarrow> ('a \<Rightarrow> 'e + 'b) \<Rightarrow> 'e + 'b" where
  "bind_r m f = (case m of Inl e \<Rightarrow> Inl e | Inr x \<Rightarrow> f x)"

definition py_div :: "'f::{zero,inverse} \<Rightarrow> 'f \<Rightarrow> py_error + 'f" where
  "py_div a b = (if b = 0 then Inl ZeroDivisionError else Inr (a / b))"

text \<open>An operator applied while the world is \<open>w\<close> and the trader is \<open>t\<close>.\<close>

definition in_state :: "'f world \<Rightarrow> 'f trader \<Rightarrow> py_error + 'a \<Rightarrow> ('f, 'a) result" where
  "in_state w t m = (case m of Inl e \<Rightarrow> Inl (e, w, t) | Inr x \<Rightarrow> Inr x)"

definition step :: "'f world \<Rightarrow> 'f world" where
  "step w = w\<lparr>calls := calls w + 1\<rparr>"

fun world_of :: "('f, 'f world \<times> 'a) result \<Rightarrow> 'f world" where
  "world_of (Inl (e, w, t)) = w"
| "world_of (Inr (w, x)) = w"

fun trader_of :: "('f, 'f world \<times> 'f trader) result \<Rightarrow> 'f trader" where
  "trader_of (Inl (e, w, t)) = t"
| "trader_of (Inr (w, t)) = t"

section \<open>db.py\<close>

text \<open>
  \<open>record_trade(stock, action, price, volume, profit)\<close> has five parameters and
  inserts them into a new row; the id is the autoincrement key and the timestamp the
  time of the insertion. A call with another number of arguments raises TypeError
  before anything is executed.
\<close>

fun record_trade :: "'f gateway \<Rightarrow> 'f pyval list \<Rightarrow> 'f world \<Rightarrow> py_error + 'f world" where
  "record_trade g [stock', action', price', volume', profit'] w =
     Inr ((step w)\<lparr>trades := trades w @
       [TradeRow (length (trades w) + 1) stock' action' price' volume' profit'
          (datetime_now g (calls w))]\<rparr>)"
| "record_trade g args w = Inl TypeError"

text \<open>\<open>update_position\<close>: INSERT OR REPLACE of the whole row under the key
  \<open>self.stock\<close>; the column \<open>last_updated\<close> gets \<open>datetime.now()\<close>.\<close>

definition position_row_of :: "'f trader \<Rightarrow> nat \<Rightarrow> 'f position_row" where
  "position_row_of t ts =
     \<lparr>volume_col = volume t, buy_count_col = buy_count t,
      last_buy_price_col = last_buy_price t, total_cost_col = total_cost t,
      avg_price_col = avg_price t, current_price_col = current_price t,
      profit_col = profit t, status_col = position_status t, last_updated_col = ts\<rparr>"

definition update_position :: "'f gateway \<Rightarrow> 'f trader \<Rightarrow> 'f world \<Rightarrow> 'f world" where
  "update_position g t w =
     (step w)\<lparr>positions := (positions w)(stock t \<mapsto> position_row_of t (datetime_now g (calls w))),
              upserts := upserts w @ [stock t]\<rparr>"

definition get_position :: "'f world \<Rightarrow> string \<Rightarrow> 'f position_row option" where
  "get_position w s = positions w s"

text \<open>\<open>create_position\<close>: a plain INSERT of the row, with \<open>self.last_updated\<close>.\<close>

definition create_position :: "'f trader \<Rightarrow> 'f world \<Rightarrow> 'f world" where
  "create_position t w =
     w\<lparr>positions := (positions w)(stock t \<mapsto> position_row_of t (last_updated t))\<rparr>"

subsection \<open>The last trade\<close>

text \<open>
  Modelled from the spec: the trade record. \<open>get_last_trade\<close> is imported from db and
  db.py does not define it, so what it returns is taken from the spec: "Trade record
  (append-only ledger entry): symbol, action {BUY, SELL}, fill price, filled quantity,
  funding-currency amount, realized profit ratio (zero for buys), timestamp", in a table
  with an "autoincrement identity, timestamped at insertion".
\<close>

record 'f trade_record =
  trade_id :: 'f
  trade_symbol :: string
  trade_action :: side
  fill_price :: 'f
  filled_quantity :: 'f
  funding_amount :: 'f
  profit_ratio :: 'f
  trade_time :: string

text \<open>
  Modelled from the spec: the tuple that a cursor hands over for a trade record, the
  identity first and then the fields in the order in which the spec lists them, which
  is the order of the arguments of the three calls of \<open>record_trade\<close> in
  stock_trader.py.
\<close>

definition trade_tuple :: "'f trade_record \<Rightarrow> 'f pyval list" where
  "trade_tuple r =
     [Num (trade_id r), Str (trade_symbol r),
      Str (case trade_action r of BUY \<Rightarrow> ''BUY'' | SELL \<Rightarrow> ''SELL''),
      Num (fill_price r), Num (filled_quantity r), Num (funding_amount r),
      Num (profit_ratio r), Str (trade_time r)]"

text \<open>
  Modelled from the spec: "lastTrade(symbol): most recent ledger row for the symbol by
  insertion order", or absent. The ledger is the list of the trade records in the order
  of their insertion.
\<close>

definition lastTrade :: "'f trade_record list \<Rightarrow> string \<Rightarrow> 'f pyval list option" where
  "lastTrade ledger s =
     (case rev (filter (\<lambda>r. trade_symbol r = s) ledger) of
        [] \<Rightarrow> None
      | r # _ \<Rightarrow> Some (trade_tuple r))"

section \<open>stock_trader.py\<close>

subsection \<open>Operators and outside calls\<close>

text \<open>\<open>x[i]\<close> on the result of a lookup: None is not subscriptable.\<close>

definition subscript :: "'a list option \<Rightarrow> nat \<Rightarrow> py_error + 'a" where
  "subscript x i =
     (case x of
        None \<Rightarrow> Inl TypeError
      | Some xs \<Rightarrow> if i < length xs then Inr (xs ! i) else Inl IndexError)"

text \<open>\<open>a / b\<close> on two cells: numbers divide, a string does not.\<close>

fun truediv :: "('f::{zero,inverse}) pyval \<Rightarrow> 'f pyval \<Rightarrow> py_error + 'f" where
  "truediv (Num a) (Num b) = py_div a b"
| "truediv a b = Inl TypeError"

definition quote :: "'f gateway \<Rightarrow> string \<Rightarrow> 'f world \<Rightarrow> ('f \<times> 'f) \<times> 'f world" where
  "quote g s w = (get_stock_price_from_dinari g (calls w) s, step w)"

definition now :: "'f gateway \<Rightarrow> 'f world \<Rightarrow> nat \<times> 'f world" where
  "now g w = (datetime_now g (calls w), step w)"

definition submit ::
  "'f gateway \<Rightarrow> side \<Rightarrow> string \<Rightarrow> int \<Rightarrow> 'f \<Rightarrow> 'f \<Rightarrow> 'f world \<Rightarrow> bool \<times> 'f world" where
  "submit g sd addr wal req off w =
     (let ok = send_asset g (calls w) addr wal req off
      in (ok, (step w)\<lparr>orders := orders w @
            [\<lparr>order_side = sd, address = addr, wallet = wal, requested = req,
              offered = off, accepted = ok\<rparr>]\<rparr>))"

subsection \<open>StockTrader\<close>

definition load_position :: "'f trader \<Rightarrow> 'f world \<Rightarrow> 'f world \<times> 'f trader" where
  "load_position t w =
     (case get_position w (stock t) of
        Some r \<Rightarrow>
          (w, t\<lparr>volume := volume_col r, buy_count := buy_count_col r,
                last_buy_price := last_buy_price_col r, total_cost := total_cost_col r,
                avg_price := avg_price_col r, current_price := current_price_col r,
                profit := profit_col r, position_status := status_col r,
                last_updated := last_updated_col r\<rparr>)
      | None \<Rightarrow> (create_position t w, t))"

text \<open>\<open>__init__\<close>; the wallet id is set last, from \<open>add_token\<close>.\<close>

definition StockTrader ::
  "('f::zero) gateway \<Rightarrow> string \<Rightarrow> 'f world \<Rightarrow> 'f world \<times> 'f trader" where
  "StockTrader g s w =
     (let (ts, w1) = now g w;
          t = \<lparr>stock = s, volume = 0, buy_count = 0, last_buy_price = 0, total_cost = 0,
               avg_price = 0, current_price = 0, profit = 0, position_status = TRADABLE,
               last_updated = ts, wallet_id = 0\<rparr>;
          (w2, t') = load_position t w1
      in (step w2, t'\<lparr>wallet_id := add_token g (calls w2) s\<rparr>))"

text \<open>\<open>self.volume * self.current_price / xch_price / self.total_cost - 1\<close>\<close>

definition holding_profit ::
  "'f::{zero,one,minus,times,inverse} \<Rightarrow> 'f trader \<Rightarrow> py_error + 'f" where
  "holding_profit xch_price t =
     bind_r (py_div (volume t * current_price t) xch_price) (\<lambda>q.
     bind_r (py_div q (total_cost t)) (\<lambda>r.
     Inr (r - 1)))"

text \<open>Lines 54 to 62 of \<open>buy_stock\<close>: the bookkeeping of an accepted buy, one
  assignment after the other, so that a division that raises leaves the attributes
  assigned before it.\<close>

definition buy_fill ::
  "'f world \<Rightarrow> 'f::{zero,one,plus,minus,times,inverse} \<Rightarrow> 'f \<Rightarrow> 'f \<Rightarrow> 'f \<Rightarrow> nat \<Rightarrow> 'f trader \<Rightarrow>
   ('f, 'f trader) result" where
  "buy_fill w price volume' xch_volume xch_price timestamp t =
     (let t1 = t\<lparr>volume := volume t + volume', last_buy_price := price,
                 total_cost := total_cost t + xch_volume\<rparr>
      in bind_r (in_state w t1 (py_div (total_cost t1) (volume t1))) (\<lambda>avg.
         let t2 = t1\<lparr>avg_price := avg, current_price := price\<rparr>
         in bind_r (in_state w t2 (holding_profit xch_price t2)) (\<lambda>p.
            Inr (t2\<lparr>profit := p, position_status := PENDING_BUY,
                    buy_count := buy_count t2 + 1, last_updated := timestamp\<rparr>))))"

definition buy_stock ::
  "'f config \<Rightarrow> 'f gateway \<Rightarrow> 'f::{zero,one,plus,minus,times,inverse} \<Rightarrow> 'f \<Rightarrow>
   'f world \<times> 'f trader \<Rightarrow> ('f, 'f world \<times> 'f trader) result" where
  "buy_stock cfg g xch_volume xch_price wt =
     (case wt of (w, t) \<Rightarrow>
        if stock t \<in> set (SELL_ONLY_SYMBOLS cfg) then Inr (w, t)
        else
          let (q, w1) = quote g (stock t) w; price = snd q
          in if price = 0 then Inr (w1, t)
             else
               bind_r (in_state w1 t (py_div (xch_volume * xch_price) price)) (\<lambda>volume'.
               let (timestamp, w2) = now g w1;
                   (ok, w3) = submit g BUY (buy_addr cfg (stock t)) 1 volume' xch_volume w2
               in if \<not> ok then Inr (w3, t)
                  else
                    bind_r (buy_fill w3 price volume' xch_volume xch_price timestamp t) (\<lambda>t'.
                    bind_r (in_state w3 t'
                              (record_trade g
                                 [Str (stock t'), Str ''BUY'', Num price, Num volume',
                                  Num xch_volume, Num 0] w3)) (\<lambda>w4.
                    Inr (w4, t')))))"

definition sell_stock ::
  "'f config \<Rightarrow> 'f gateway \<Rightarrow> 'f::{zero,one,minus,times,inverse,ord} \<Rightarrow> bool \<Rightarrow>
   'f world \<times> 'f trader \<Rightarrow> ('f, 'f world \<times> 'f trader) result" where
  "sell_stock cfg g xch_price liquid wt =
     (case wt of (w, t) \<Rightarrow>
        let (q, w1) = quote g (stock t) w; t1 = t\<lparr>current_price := fst q\<rparr>
        in if current_price t1 = 0 then Inr (w1, t1)
           else
             bind_r (in_state w1 t1 (py_div (volume t1 * current_price t1) xch_price))
               (\<lambda>request_xch.
             bind_r (in_state w1 t1 (py_div request_xch (total_cost t1))) (\<lambda>r.
             let t2 = t1\<lparr>profit := r - 1\<rparr>
             in if MIN_PROFIT cfg \<le> profit t2 \<or> liquid then
                  let (timestamp, w2) = now g w1;
                      (ok, w3) = submit g SELL (sell_addr cfg (stock t2)) (wallet_id t2)
                                   request_xch (volume t2) w2
                  in if \<not> ok then Inr (w3, t2)
                     else
                       bind_r (in_state w3 t2
                                 (record_trade g
                                    [Str (stock t2), Str ''SELL'', Num (current_price t2),
                                     Num (volume t2), Num (total_cost t2), Num (profit t2)] w3))
                         (\<lambda>w4.
                       Inr (w4, t2\<lparr>position_status := PENDING_SELL,
                                   last_updated := timestamp\<rparr>))
                else Inr (w1, t2))))"

text \<open>\<open>last_trade[5] / last_trade[4]\<close> and the drop against it (lines 92 and 93).\<close>

definition last_trade_price :: "('f::{zero,inverse}) pyval list option \<Rightarrow> py_error + 'f" where
  "last_trade_price last_trade =
     bind_r (subscript last_trade 5) (\<lambda>a.
     bind_r (subscript last_trade 4) (\<lambda>b.
     truediv a b))"

definition drop_percentage :: "'f::{zero,minus,inverse} \<Rightarrow> 'f \<Rightarrow> 'f \<Rightarrow> py_error + 'f" where
  "drop_percentage last_price cur xch_price =
     bind_r (py_div cur xch_price) (\<lambda>c.
     py_div (last_price - c) last_price)"

text \<open>Lines 96 to 111 of \<open>handle_price_drop\<close>: what is done about the drop.\<close>

definition drop_decision ::
  "'f config \<Rightarrow> 'f gateway \<Rightarrow> 'f::{zero,one,plus,minus,uminus,times,inverse,ord} \<Rightarrow> 'f \<Rightarrow>
   'f world \<times> 'f trader \<Rightarrow> ('f, 'f world \<times> 'f trader) result" where
  "drop_decision cfg g xch_price drop' wt =
     (case wt of (w1, t2) \<Rightarrow>
        if buy_count t2 = MAX_BUY_TIMES cfg \<and> profit t2 < - MAX_LOSS_PERCENTAGE cfg then
          bind_r (in_state w1 t2 (py_div (volume t2 * current_price t2) xch_price))
            (\<lambda>request_xch.
          let (timestamp, w2) = now g w1;
              (ok, w3) = submit g SELL (sell_addr cfg (stock t2)) (wallet_id t2)
                           request_xch (volume t2) w2
          in if \<not> ok then Inr (w3, t2)
             else
               bind_r (in_state w3 t2
                         (record_trade g
                            [Str (stock t2), Str ''SELL'', Num (current_price t2),
                             Num (volume t2), Num (total_cost t2), Num (profit t2)] w3))
                 (\<lambda>w4.
               Inr (w4, t2\<lparr>position_status := PENDING_SELL, last_updated := timestamp\<rparr>)))
        else if DCA_PERCENTAGE cfg \<le> drop' \<and> buy_count t2 < MAX_BUY_TIMES cfg then
          buy_stock cfg g (BUY_PERCENTAGE cfg * INVESTED_XCH cfg) xch_price (w1, t2)
        else Inr (w1, t2))"

text \<open>Lines 86 to 93, then the decision. The debug line between them divides
  \<open>xch_price\<close> by the current price, which is not zero there.\<close>

definition handle_price_drop ::
  "'f config \<Rightarrow> 'f gateway \<Rightarrow> 'f::{zero,one,plus,minus,uminus,times,inverse,ord} \<Rightarrow>
   'f world \<times> 'f trader \<Rightarrow> ('f, 'f world \<times> 'f trader) result" where
  "handle_price_drop cfg g xch_price wt =
     (case wt of (w, t) \<Rightarrow>
        let (q, w1) = quote g (stock t) w; t1 = t\<lparr>current_price := snd q\<rparr>
        in if current_price t1 = 0 then Inr (w1, t1)
           else
             bind_r (in_state w1 t1 (holding_profit xch_price t1)) (\<lambda>p.
             let t2 = t1\<lparr>profit := p\<rparr>;
                 last_trade = get_last_trade g w1 (stock t2)
             in bind_r (in_state w1 t2 (last_trade_price last_trade)) (\<lambda>last_price.
                bind_r (in_state w1 t2 (drop_percentage last_price (current_price t2) xch_price))
                  (\<lambda>drop'.
                drop_decision cfg g xch_price drop' (w1, t2)))))"

subsection \<open>execute\_trading\<close>

text \<open>
  Lines 126 to 139: the branch taken for one trader. \<open>and\<close> asks the gateway
  whether the market is open only for a tradable position. The flag of the result says
  that \<open>continue\<close> was taken.
\<close>

definition trade_branch ::
  "'f config \<Rightarrow> 'f gateway \<Rightarrow> 'f::{zero,one,plus,minus,uminus,times,inverse,ord} \<Rightarrow>
   'f world \<times> 'f trader \<Rightarrow> ('f, 'f world \<times> 'f trader \<times> bool) result" where
  "trade_branch cfg g xch_price wt =
     (case wt of (w, t) \<Rightarrow>
        let (active, w0) =
              (if position_status t = TRADABLE then (is_market_open g (calls w), step w)
               else (False, w))
        in if active then
             if volume t = 0 then
               bind_r (buy_stock cfg g (BUY_PERCENTAGE cfg * INVESTED_XCH cfg) xch_price (w0, t))
                 (\<lambda>(w1, t1). Inr (w1, t1, False))
             else if 0 < volume t then
               bind_r (sell_stock cfg g xch_price False (w0, t)) (\<lambda>(w1, t1).
               if position_status t1 = TRADABLE then
                 bind_r (handle_price_drop cfg g xch_price (w1, t1))
                   (\<lambda>(w2, t2). Inr (w2, t2, False))
               else Inr (w1, t1, False))
             else Inr (w0, t, False)
           else
             let (q, w1) = quote g (stock t) w0; t1 = t\<lparr>current_price := snd q\<rparr>
             in if current_price t1 = 0 then Inr (w1, t1, True)
                else if 0 < total_cost t1 then
                  bind_r (in_state w1 t1 (holding_profit xch_price t1))
                    (\<lambda>p. Inr (w1, t1\<lparr>profit := p\<rparr>, False))
                else Inr (w1, t1, False))"

text \<open>
  The body of the \<open>for\<close> loop: the branch, then (unless \<open>continue\<close>) the status line,
  which divides by \<open>xch_price\<close>, the share of the stock balance, and
  \<open>update_position\<close>. The result carries the share of the balance.
\<close>

definition trade_one ::
  "'f config \<Rightarrow> 'f gateway \<Rightarrow> 'f::{zero,one,plus,minus,uminus,times,inverse,ord} \<Rightarrow>
   'f world \<times> 'f trader \<Rightarrow> ('f, 'f world \<times> 'f trader \<times> 'f) result" where
  "trade_one cfg g xch_price wt =
     bind_r (trade_branch cfg g xch_price wt) (\<lambda>(w1, t1, continue).
     if continue then Inr (w1, t1, 0)
     else
       bind_r (in_state w1 t1 (py_div (current_price t1) xch_price)) (\<lambda>shown.
       Inr (update_position g t1 w1, t1, volume t1 * current_price t1)))"

fun run_traders ::
  "'f config \<Rightarrow> 'f gateway \<Rightarrow> 'f::{zero,one,plus,minus,uminus,times,inverse,ord} \<Rightarrow>
   'f world \<Rightarrow> 'f trader list \<Rightarrow> 'f \<Rightarrow> ('f, 'f world \<times> 'f trader list \<times> 'f) result" where
  "run_traders cfg g xch_price w [] stock_balance = Inr (w, [], stock_balance)"
| "run_traders cfg g xch_price w (t # ts) stock_balance =
     bind_r (trade_one cfg g xch_price (w, t)) (\<lambda>(w1, t1, b).
     bind_r (run_traders cfg g xch_price w1 ts (stock_balance + b)) (\<lambda>(w2, ts2, bal).
     Inr (w2, t1 # ts2, bal)))"

text \<open>Line 116: one trader for each of the configured symbols, built in order.\<close>

fun make_traders ::
  "('f::zero) gateway \<Rightarrow> string list \<Rightarrow> 'f world \<Rightarrow> 'f world \<times> 'f trader list" where
  "make_traders g [] w = (w, [])"
| "make_traders g (s # symbols) w =
     (let (w1, t) = StockTrader g s w;
          (w2, ts) = make_traders g symbols w1
      in (w2, t # ts))"

text \<open>
  One turn of \<open>while True\<close>, up to the end of the \<open>for\<close> loop: without a reference
  price the turn is over at once. What follows the loop in the source (the check of the
  pending positions, the balance report, the sleep) calls neither \<open>update_position\<close>
  nor \<open>record_trade\<close>.
\<close>

definition tick ::
  "'f config \<Rightarrow> ('f::{zero,one,plus,minus,uminus,times,inverse,ord}) gateway \<Rightarrow>
   'f world \<times> 'f trader list \<Rightarrow> ('f, 'f world \<times> 'f trader list \<times> 'f) result" where
  "tick cfg g wts =
     (case wts of (w, traders) \<Rightarrow>
        (case get_xch_price g (calls w) of
           None \<Rightarrow> Inr (step w, traders, 0)
         | Some xch_price \<Rightarrow> run_traders cfg g xch_price (step w) traders 0))"

section \<open>What the claims observe\<close>

text \<open>The orders sent during a call, and whether one of them was turned down.\<close>

definition new_orders :: "'f world \<Rightarrow> ('f, 'f world \<times> 'a) result \<Rightarrow> 'f order list" where
  "new_orders w r = drop (length (orders w)) (orders (world_of r))"

definition rejected :: "'f world \<Rightarrow> ('f, 'f world \<times> 'a) result \<Rightarrow> bool" where
  "rejected w r = list_ex (\<lambda>x. \<not> accepted x) (new_orders w r)"

text \<open>Two states of a trader that differ at most in \<open>current_price\<close> and \<open>profit\<close>.\<close>

definition same_books :: "'f trader \<Rightarrow> 'f trader \<Rightarrow> bool" where
  "same_books t t' = (t' = t\<lparr>current_price := current_price t', profit := profit t'\<rparr>)"

text \<open>
  The condition under which the loop takes \<open>continue\<close> for a trader: the branch
  without orders (position not tradable, or market closed) and an ask price of zero.
  The market is asked only about a tradable position, which moves the quote by one
  interaction.
\<close>

definition quote_failed :: "('f::zero) gateway \<Rightarrow> 'f world \<Rightarrow> 'f trader \<Rightarrow> bool" where
  "quote_failed g w t =
     (if position_status t = TRADABLE
      then \<not> is_market_open g (calls w)
           \<and> snd (get_stock_price_from_dinari g (Suc (calls w)) (stock t)) = 0
      else snd (get_stock_price_from_dinari g (calls w) (stock t)) = 0)"

text \<open>The invariant of the spec: no holdings, no cost.\<close>

definition cost_invariant :: "('f::zero) trader \<Rightarrow> bool" where
  "cost_invariant t = (volume t = 0 \<longrightarrow> total_cost t = 0)"

subsection \<open>The scenarios of the spec\<close>

text \<open>
  One symbol, a funding increment of 10 (a tenth of 100), a minimum profit of 0.1, at
  most three buys; a reference price of 100; a gateway that always gives the same
  quote and the same answer to an order, a clock that counts the interactions, and a
  ledger without a trade. \<open>with_ledger\<close> puts a ledger behind \<open>get_last_trade\<close>.
\<close>

definition scenario_config :: "real config" where
  "scenario_config =
     \<lparr>TRADING_SYMBOLS = [''AAPL''], SELL_ONLY_SYMBOLS = [], BUY_PERCENTAGE = 1 / 10,
      INVESTED_XCH = 100, MIN_PROFIT = 1 / 10, MAX_BUY_TIMES = 3,
      MAX_LOSS_PERCENTAGE = 1 / 5, DCA_PERCENTAGE = 1 / 20,
      buy_addr = (\<lambda>s. ''buy''), sell_addr = (\<lambda>s. ''sell'')\<rparr>"

definition scenario_gateway :: "real \<Rightarrow> real \<Rightarrow> bool \<Rightarrow> bool \<Rightarrow> real gateway" where
  "scenario_gateway bid ask ok opened =
     \<lparr>get_stock_price_from_dinari = (\<lambda>n s. (bid, ask)),
      send_asset = (\<lambda>n a wl x y. ok),
      is_market_open = (\<lambda>n. opened),
      get_xch_price = (\<lambda>n. Some 100),
      add_token = (\<lambda>n s. 2),
      datetime_now = (\<lambda>n. n),
      get_last_trade = (\<lambda>w. lastTrade [])\<rparr>"

definition with_ledger :: "'f gateway \<Rightarrow> 'f trade_record list \<Rightarrow> 'f gateway" where
  "with_ledger g ledger = g\<lparr>get_last_trade := \<lambda>w. lastTrade ledger\<rparr>"

definition empty_world :: "real world" where
  "empty_world = \<lparr>trades = [], positions = Map.empty, orders = [], upserts = [], calls = 0\<rparr>"

definition flat_trader :: "real trader" where
  "flat_trader =
     \<lparr>stock = ''AAPL'', volume = 0, buy_count = 0, last_buy_price = 0, total_cost = 0,
      avg_price = 0, current_price = 0, profit = 0, position_status = TRADABLE,
      last_updated = 0, wallet_id = 2\<rparr>"

definition held_trader :: "real trader" where
  "held_trader =
     \<lparr>stock = ''AAPL'', volume = 20, buy_count = 1, last_buy_price = 50, total_cost = 10,
      avg_price = 1 / 2, current_price = 50, profit = 0, position_status = TRADABLE,
      last_updated = 0, wallet_id = 2\<rparr>"

text \<open>A position that has used its three buys.\<close>

definition capped_trader :: "real trader" where
  "capped_trader = held_trader\<lparr>buy_count := 3\<rparr>"

text \<open>The trade record of the buy of the scenario (20 shares at 50 for 10), a ledger
  that holds it, and a ledger whose last record has a funding amount of zero.\<close>

definition bought_record :: "real trade_record" where
  "bought_record =
     \<lparr>trade_id = 1, trade_symbol = ''AAPL'', trade_action = BUY, fill_price = 50,
      filled_quantity = 20, funding_amount = 10, profit_ratio = 0,
      trade_time = ''2024-01-02 15:30:00''\<rparr>"

definition bought_ledger :: "real trade_record list" where
  "bought_ledger = [bought_record]"

definition unfunded_ledger :: "real trade_record list" where
  "unfunded_ledger = [bought_record, bought_record\<lparr>trade_id := 2, funding_amount := 0\<rparr>]"

text \<open>A database whose stored position holds 20 shares at a total cost of zero.\<close>

definition stored_world :: "real world" where
  "stored_world =
     empty_world\<lparr>positions :=
       [''AAPL'' \<mapsto> \<lparr>volume_col = 20, buy_count_col = 1, last_buy_price_col = 50,
                    total_cost_col = 0, avg_price_col = 0, current_price_col = 50,
                    profit_col = 0, status_col = TRADABLE, last_updated_col = 0\<rparr>]\<rparr>"

lemmas scenario_defs =
  scenario_config_def scenario_gateway_def with_ledger_def empty_world_def flat_trader_def
  held_trader_def capped_trader_def bought_record_def bought_ledger_def unfunded_ledger_def

section \<open>Auxiliary facts\<close>

lemma bind_r_simps [simp]:
  "bind_r (Inl e) f = Inl e" "bind_r (Inr x) f = f x"
  by (simp_all add: bind_r_def)

lemma in_state_simps [simp]:
  "in_state w t (Inl e) = Inl (e, w, t)" "in_state w t (Inr x) = Inr x"
  by (simp_all add: in_state_def)

lemma step_simps [simp]:
  "trades (step w) = trades w" "positions (step w) = positions w" "orders (step w) = orders w"
  "upserts (step w) = upserts w" "calls (step w) = Suc (calls w)"
  by (simp_all add: step_def)

lemma submit_simps [simp]:
  "fst (submit g sd a wl r f w) = send_asset g (calls w) a wl r f"
  "trades (snd (submit g sd a wl r f w)) = trades w"
  "positions (snd (submit g sd a wl r f w)) = positions w"
  "upserts (snd (submit g sd a wl r f w)) = upserts w"
  "calls (snd (submit g sd a wl r f w)) = Suc (calls w)"
  "orders (snd (submit g sd a wl r f w)) = orders w @
     [\<lparr>order_side = sd, address = a, wallet = wl, requested = r, offered = f,
       accepted = send_asset g (calls w) a wl r f\<rparr>]"
  by (simp_all add: submit_def Let_def)

lemma now_simps [simp]:
  "fst (now g w) = datetime_now g (calls w)" "snd (now g w) = step w"
  by (simp_all add: now_def)

lemma quote_simps [simp]:
  "fst (quote g s w) = get_stock_price_from_dinari g (calls w) s" "snd (quote g s w) = step w"
  by (simp_all add: quote_def)

text \<open>The operations in explicit form: what they return or raise, and in which state.\<close>

lemma holding_profit_eq:
  "holding_profit xp t =
     (if xp = 0 \<or> total_cost t = 0 then Inl ZeroDivisionError
      else Inr (volume t * current_price t / xp / total_cost t - 1))"
  by (simp add: holding_profit_def py_div_def)

lemma buy_fill_eq:
  "buy_fill w price v xv xp ts t =
     (let t1 = t\<lparr>volume := volume t + v, last_buy_price := price,
                 total_cost := total_cost t + xv\<rparr>;
          t2 = t1\<lparr>avg_price := (total_cost t + xv) / (volume t + v), current_price := price\<rparr>
      in if volume t + v = 0 then Inl (ZeroDivisionError, w, t1)
         else if xp = 0 \<or> total_cost t + xv = 0 then Inl (ZeroDivisionError, w, t2)
         else Inr (t2\<lparr>profit := (volume t + v) * price / xp / (total_cost t + xv) - 1,
                      position_status := PENDING_BUY, buy_count := buy_count t + 1,
                      last_updated := ts\<rparr>))"
  by (simp add: buy_fill_def holding_profit_eq py_div_def Let_def)

lemma buy_fill_world: "buy_fill w price v xv xp ts t = Inl (e, w', t') \<Longrightarrow> w' = w"
  by (auto simp add: buy_fill_eq Let_def split: if_splits)

lemma buy_stock_eq:
  "buy_stock cfg g xv xp (w, t) =
     (if stock t \<in> set (SELL_ONLY_SYMBOLS cfg) then Inr (w, t)
      else if snd (get_stock_price_from_dinari g (calls w) (stock t)) = 0 then Inr (step w, t)
      else
        let price = snd (get_stock_price_from_dinari g (calls w) (stock t));
            sw = submit g BUY (buy_addr cfg (stock t)) 1 (xv * xp / price) xv (step (step w))
        in if \<not> fst sw then Inr (snd sw, t)
           else
             case buy_fill (snd sw) price (xv * xp / price) xv xp
                    (datetime_now g (Suc (calls w))) t of
               Inl e \<Rightarrow> Inl e
             | Inr t' \<Rightarrow> Inl (TypeError, snd sw, t'))"
  by (simp add: buy_stock_def py_div_def Let_def split_def bind_r_def del: submit_simps
        split: sum.splits)

lemma sell_stock_eq:
  "sell_stock cfg g xp liquid (w, t) =
     (let bid = fst (get_stock_price_from_dinari g (calls w) (stock t));
          t1 = t\<lparr>current_price := bid\<rparr>
      in if bid = 0 then Inr (step w, t1)
         else if xp = 0 \<or> total_cost t = 0 then Inl (ZeroDivisionError, step w, t1)
         else
           let proceeds = volume t * bid / xp;
               t2 = t\<lparr>current_price := bid, profit := proceeds / total_cost t - 1\<rparr>
           in if MIN_PROFIT cfg \<le> proceeds / total_cost t - 1 \<or> liquid then
                let sw = submit g SELL (sell_addr cfg (stock t)) (wallet_id t) proceeds (volume t)
                           (step (step w))
                in if \<not> fst sw then Inr (snd sw, t2) else Inl (TypeError, snd sw, t2)
              else Inr (step w, t2))"
  by (simp add: sell_stock_def py_div_def Let_def split_def)

lemma drop_decision_eq:
  "drop_decision cfg g xp d (w, t) =
     (if buy_count t = MAX_BUY_TIMES cfg \<and> profit t < - MAX_LOSS_PERCENTAGE cfg then
        if xp = 0 then Inl (ZeroDivisionError, w, t)
        else
          let sw = submit g SELL (sell_addr cfg (stock t)) (wallet_id t)
                     (volume t * current_price t / xp) (volume t) (step w)
          in if \<not> fst sw then Inr (snd sw, t) else Inl (TypeError, snd sw, t)
      else if DCA_PERCENTAGE cfg \<le> d \<and> buy_count t < MAX_BUY_TIMES cfg then
        buy_stock cfg g (BUY_PERCENTAGE cfg * INVESTED_XCH cfg) xp (w, t)
      else Inr (w, t))"
  by (simp add: drop_decision_def py_div_def Let_def split_def)

lemma handle_price_drop_eq:
  "handle_price_drop cfg g xp (w, t) =
     (let ask = snd (get_stock_price_from_dinari g (calls w) (stock t));
          t1 = t\<lparr>current_price := ask\<rparr>
      in if ask = 0 then Inr (step w, t1)
         else
           case holding_profit xp t1 of
             Inl e \<Rightarrow> Inl (e, step w, t1)
           | Inr p \<Rightarrow>
               (case last_trade_price (get_last_trade g (step w) (stock t)) of
                  Inl e \<Rightarrow> Inl (e, step w, t1\<lparr>profit := p\<rparr>)
                | Inr lp \<Rightarrow>
                    (case drop_percentage lp ask xp of
                       Inl e \<Rightarrow> Inl (e, step w, t1\<lparr>profit := p\<rparr>)
                     | Inr d \<Rightarrow> drop_decision cfg g xp d (step w, t1\<lparr>profit := p\<rparr>))))"
  by (simp add: handle_price_drop_def Let_def split_def split: sum.splits)

text \<open>The world that a buy leaves, whatever its outcome.\<close>

lemma buy_stock_world:
  "orders (world_of (buy_stock cfg g xv xp (w, t))) =
     orders w @
     (if stock t \<in> set (SELL_ONLY_SYMBOLS cfg)
         \<or> snd (get_stock_price_from_dinari g (calls w) (stock t)) = 0 then []
      else [\<lparr>order_side = BUY, address = buy_addr cfg (stock t), wallet = 1,
              requested = xv * xp / snd (get_stock_price_from_dinari g (calls w) (stock t)),
              offered = xv,
              accepted = send_asset g (Suc (Suc (calls w))) (buy_addr cfg (stock t)) 1
                (xv * xp / snd (get_stock_price_from_dinari g (calls w) (stock t))) xv\<rparr>])"
  "trades (world_of (buy_stock cfg g xv xp (w, t))) = trades w"
  "upserts (world_of (buy_stock cfg g xv xp (w, t))) = upserts w"
  by (auto simp add: buy_stock_eq Let_def split: sum.splits dest: buy_fill_world)

text \<open>The three operations when the price is missing or the order is turned down.\<close>

lemma buy_abort:
  assumes "snd (get_stock_price_from_dinari g (calls w) (stock t)) = 0 \<or> rejected w (buy_stock cfg g xv xp (w, t))"
  shows "\<exists>w'. buy_stock cfg g xv xp (w, t) = Inr (w', t) \<and> trades w' = trades w"
proof (cases "snd (get_stock_price_from_dinari g (calls w) (stock t)) = 0")
  case True
  then show ?thesis
    by (simp add: buy_stock_eq)
next
  case False
  with assms have "rejected w (buy_stock cfg g xv xp (w, t))"
    by simp
  then have "\<not> send_asset g (Suc (Suc (calls w))) (buy_addr cfg (stock t)) 1
                (xv * xp / snd (get_stock_price_from_dinari g (calls w) (stock t))) xv"
    and "stock t \<notin> set (SELL_ONLY_SYMBOLS cfg)"
    by (auto simp add: rejected_def new_orders_def buy_stock_world split: if_splits)
  with False show ?thesis
    by (simp add: buy_stock_eq Let_def)
qed

lemma sell_abort:
  assumes "fst (get_stock_price_from_dinari g (calls w) (stock t)) = 0 \<or> rejected w (sell_stock cfg g xp liquid (w, t))"
  shows "\<exists>w' t'. sell_stock cfg g xp liquid (w, t) = Inr (w', t') \<and> trades w' = trades w \<and> same_books t t'"
  using assms
  by (auto simp add: sell_stock_eq rejected_def new_orders_def Let_def same_books_def split: if_splits)

lemma drop_decision_abort:
  assumes "rejected w (drop_decision cfg g xp d (w', t))" and "orders w' = orders w"
  shows "\<exists>w''. drop_decision cfg g xp d (w', t) = Inr (w'', t) \<and> trades w'' = trades w'"
proof (cases "buy_count t = MAX_BUY_TIMES cfg \<and> profit t < - MAX_LOSS_PERCENTAGE cfg")
  case True
  with assms show ?thesis
    by (auto simp add: drop_decision_eq rejected_def new_orders_def Let_def split: if_splits)
next
  case sl: False
  show ?thesis
  proof (cases "DCA_PERCENTAGE cfg \<le> d \<and> buy_count t < MAX_BUY_TIMES cfg")
    case True
    with sl have eq: "drop_decision cfg g xp d (w', t) =
        buy_stock cfg g (BUY_PERCENTAGE cfg * INVESTED_XCH cfg) xp (w', t)"
      by (auto simp add: drop_decision_eq)
    from assms have "rejected w' (buy_stock cfg g (BUY_PERCENTAGE cfg * INVESTED_XCH cfg) xp (w', t))"
      by (simp add: eq rejected_def new_orders_def)
    then show ?thesis
      unfolding eq by (intro buy_abort) simp
  next
    case False
    with sl assms show ?thesis
      by (auto simp add: drop_decision_eq rejected_def new_orders_def)
  qed
qed

lemma hpd_abort:
  assumes "snd (get_stock_price_from_dinari g (calls w) (stock t)) = 0 \<or> rejected w (handle_price_drop cfg g xp (w, t))"
  shows "\<exists>w' t'. handle_price_drop cfg g xp (w, t) = Inr (w', t') \<and> trades w' = trades w \<and> same_books t t'"
proof (cases "snd (get_stock_price_from_dinari g (calls w) (stock t)) = 0")
  case True
  then show ?thesis
    by (simp add: handle_price_drop_eq same_books_def)
next
  case ask: False
  let ?ask = "snd (get_stock_price_from_dinari g (calls w) (stock t))"
  from ask assms have rej: "rejected w (handle_price_drop cfg g xp (w, t))"
    by simp
  from ask rej obtain p lp d where p: "holding_profit xp (t\<lparr>current_price := ?ask\<rparr>) = Inr p"
    and lp: "last_trade_price (get_last_trade g (step w) (stock t)) = Inr lp"
    and d: "drop_percentage lp ?ask xp = Inr d"
    by (auto simp add: handle_price_drop_eq Let_def rejected_def new_orders_def split: sum.splits)
  let ?t2 = "t\<lparr>current_price := ?ask, profit := p\<rparr>"
  from ask p lp d have eq: "handle_price_drop cfg g xp (w, t) = drop_decision cfg g xp d (step w, ?t2)"
    by (simp add: handle_price_drop_eq Let_def)
  have "orders (step w) = orders w"
    by simp
  from drop_decision_abort [OF rej [unfolded eq] this]
  show ?thesis
    unfolding eq by (auto simp add: same_books_def)
qed

text \<open>A buy sends at most one order, and only on the buy side.\<close>

lemma buy_orders:
  "orders w' = orders w \<Longrightarrow>
   new_orders w (buy_stock cfg g xv xp (w', t)) = [] \<or>
   (\<exists>x. new_orders w (buy_stock cfg g xv xp (w', t)) = [x] \<and> order_side x = BUY)"
  by (simp add: new_orders_def buy_stock_world)

lemma last_trade_price_None: "last_trade_price None = Inl TypeError"
  by (simp add: last_trade_price_def subscript_def)

lemma last_trade_price_Some:
  "last_trade_price x = Inr lp \<Longrightarrow> \<exists>row. x = Some row"
  by (cases x) (simp_all add: last_trade_price_None)

lemma drop_percentage_zero: "drop_percentage 0 c xp = Inl ZeroDivisionError"
  by (simp add: drop_percentage_def py_div_def)


lemmas hpd_eval =
  handle_price_drop_eq drop_decision_eq buy_stock_eq buy_fill_eq holding_profit_eq
  last_trade_price_def subscript_def lastTrade_def trade_tuple_def drop_percentage_def
  py_div_def new_orders_def Let_def

text \<open>What a returning operation leaves of the position and of the log of upserts.\<close>

lemma same_books_invariant: "same_books t t' \<Longrightarrow> cost_invariant t \<Longrightarrow> cost_invariant t'"
  by (cases t, cases t') (simp add: same_books_def cost_invariant_def)

lemma same_books_stock: "same_books t t' \<Longrightarrow> stock t' = stock t"
  by (cases t, cases t') (simp add: same_books_def)

lemma buy_returns:
  "buy_stock cfg g xv xp (w, t) = Inr (w', t') \<Longrightarrow> t' = t \<and> upserts w' = upserts w"
  by (auto simp add: buy_stock_eq Let_def split: if_splits sum.splits)

lemma sell_returns:
  "sell_stock cfg g xp liquid (w, t) = Inr (w', t') \<Longrightarrow> same_books t t' \<and> upserts w' = upserts w"
  by (auto simp add: sell_stock_eq Let_def same_books_def split: if_splits)

lemma drop_decision_returns:
  "drop_decision cfg g xp d (w, t) = Inr (w', t') \<Longrightarrow> t' = t \<and> upserts w' = upserts w"
  by (auto simp add: drop_decision_eq Let_def split: if_splits dest!: buy_returns)

lemma hpd_returns:
  "handle_price_drop cfg g xp (w, t) = Inr (w', t') \<Longrightarrow> same_books t t' \<and> upserts w' = upserts w"
  by (auto simp add: handle_price_drop_eq Let_def same_books_def split: if_splits sum.splits
        dest!: drop_decision_returns)

text \<open>The constructor, without and with a stored record.\<close>

lemma StockTrader_fresh:
  "get_position w s = None \<Longrightarrow>
   snd (StockTrader g s w) =
     \<lparr>stock = s, volume = 0, buy_count = 0, last_buy_price = 0, total_cost = 0,
      avg_price = 0, current_price = 0, profit = 0, position_status = TRADABLE,
      last_updated = datetime_now g (calls w), wallet_id = add_token g (Suc (calls w)) s\<rparr>"
  by (simp add: StockTrader_def load_position_def get_position_def create_position_def
        split_def Let_def)

lemma StockTrader_stored:
  "get_position w s = Some r \<Longrightarrow>
   StockTrader g s w =
     (step (step w),
      \<lparr>stock = s, volume = volume_col r, buy_count = buy_count_col r,
       last_buy_price = last_buy_price_col r, total_cost = total_cost_col r,
       avg_price = avg_price_col r, current_price = current_price_col r,
       profit = profit_col r, position_status = status_col r,
       last_updated = last_updated_col r, wallet_id = add_token g (Suc (calls w)) s\<rparr>)"
  by (simp add: StockTrader_def load_position_def get_position_def split_def Let_def)

lemma trade_one_sells:
  assumes "position_status t = TRADABLE" and "is_market_open g (calls w)" and "0 < volume t"
    and "volume t \<noteq> 0"
  shows "trade_branch cfg g xch_price (w, t) =
     bind_r (sell_stock cfg g xch_price False (step w, t)) (\<lambda>(w1, t1).
       if position_status t1 = TRADABLE then
         bind_r (handle_price_drop cfg g xch_price (w1, t1)) (\<lambda>(w2, t2). Inr (w2, t2, False))
       else Inr (w1, t1, False))"
  using assms by (simp add: trade_branch_def)

text \<open>The loop: what one turn of the body and a whole pass add to the log of upserts.\<close>

lemma update_position_simps [simp]:
  "upserts (update_position g t w) = upserts w @ [stock t]"
  "trades (update_position g t w) = trades w"
  "orders (update_position g t w) = orders w"
  "calls (update_position g t w) = Suc (calls w)"
  "positions (update_position g t w) =
     (positions w)(stock t \<mapsto> position_row_of t (datetime_now g (calls w)))"
  by (simp_all add: update_position_def)

lemma trade_branch_returns:
  assumes "trade_branch cfg g xp (w, t) = Inr (w', t', c)"
  shows "upserts w' = upserts w \<and> stock t' = stock t \<and> (c \<longleftrightarrow> quote_failed g w t)"
proof (cases "position_status t = TRADABLE \<and> is_market_open g (calls w)")
  case active: True
  show ?thesis
  proof (cases "volume t = 0")
    case True
    with active assms show ?thesis
      by (auto simp add: trade_branch_def quote_failed_def bind_r_def
            split: sum.splits dest!: buy_returns)
  next
    case False
    show ?thesis
    proof (cases "0 < volume t")
      case True
      with active False assms show ?thesis
        by (auto simp add: trade_one_sells quote_failed_def bind_r_def
              split: sum.splits if_splits dest!: sell_returns hpd_returns same_books_stock)
    next
      case False
      with \<open>volume t \<noteq> 0\<close> active assms show ?thesis
        by (auto simp add: trade_branch_def quote_failed_def)
    qed
  qed
next
  case False
  with assms show ?thesis
    by (auto simp add: trade_branch_def quote_failed_def holding_profit_eq Let_def split_def
          split: if_splits)
qed

lemma trade_one_returns:
  assumes "trade_one cfg g xp (w, t) = Inr (w', t', b)"
  shows "upserts w' = upserts w @ (if quote_failed g w t then [] else [stock t])
         \<and> stock t' = stock t
         \<and> (\<not> quote_failed g w t \<longrightarrow>
              (\<exists>ts. positions w' (stock t) = Some (position_row_of t' ts)))"
proof (cases "trade_branch cfg g xp (w, t)")
  case (Inl e)
  with assms show ?thesis
    by (simp add: trade_one_def)
next
  case (Inr r)
  obtain w1 t1 c where r: "r = (w1, t1, c)"
    by (cases r)
  from trade_branch_returns [OF Inr [unfolded r]]
  have u: "upserts w1 = upserts w" and s: "stock t1 = stock t" and c: "c \<longleftrightarrow> quote_failed g w t"
    by simp_all
  from assms Inr r u s c show ?thesis
    by (auto simp add: trade_one_def py_div_def split: if_splits)
qed

lemma run_traders_Cons:
  assumes "run_traders cfg g xp w (t # ts) bal = Inr (w2, ts2, bal2)"
  obtains w1 t1 b ts1 where "trade_one cfg g xp (w, t) = Inr (w1, t1, b)"
    and "run_traders cfg g xp w1 ts (bal + b) = Inr (w2, ts1, bal2)"
    and "ts2 = t1 # ts1"
  using assms
  by (auto simp add: bind_r_def split: sum.splits)

lemma run_traders_upserts:
  "run_traders cfg g xp w ts bal = Inr (w2, ts2, bal2) \<Longrightarrow>
   \<exists>ps. upserts w2 = upserts w @ ps \<and> subseq ps (map stock ts)"
proof (induction ts arbitrary: w bal ts2)
  case Nil
  then show ?case by simp
next
  case (Cons t ts)
  from Cons.prems obtain w1 t1 b ts1 where
    one: "trade_one cfg g xp (w, t) = Inr (w1, t1, b)"
    and rest: "run_traders cfg g xp w1 ts (bal + b) = Inr (w2, ts1, bal2)"
    by (rule run_traders_Cons)
  from Cons.IH [OF rest] obtain ps where
    ps: "upserts w2 = upserts w1 @ ps" and sub: "subseq ps (map stock ts)"
    by blast
  from trade_one_returns [OF one]
  have u: "upserts w1 = upserts w @ (if quote_failed g w t then [] else [stock t])"
    by simp
  show ?case
  proof (cases "quote_failed g w t")
    case True
    with u ps sub show ?thesis
      by (auto intro: exI [of _ ps])
  next
    case False
    with u ps sub show ?thesis
      by (auto intro: exI [of _ "stock t # ps"])
  qed
qed

lemma run_traders_all:
  "\<forall>n s. snd (get_stock_price_from_dinari g n s) \<noteq> 0 \<Longrightarrow>
   run_traders cfg g xp w ts bal = Inr (w2, ts2, bal2) \<Longrightarrow>
   upserts w2 = upserts w @ map stock ts"
proof (induction ts arbitrary: w bal ts2)
  case Nil
  then show ?case by simp
next
  case (Cons t ts)
  from Cons.prems(2) obtain w1 t1 b ts1 where
    one: "trade_one cfg g xp (w, t) = Inr (w1, t1, b)"
    and rest: "run_traders cfg g xp w1 ts (bal + b) = Inr (w2, ts1, bal2)"
    by (rule run_traders_Cons)
  from Cons.prems(1) have "\<not> quote_failed g w t"
    by (simp add: quote_failed_def)
  with trade_one_returns [OF one] have "upserts w1 = upserts w @ [stock t]"
    by simp
  with Cons.IH [OF Cons.prems(1) rest] show ?case
    by simp
qed

section \<open>The trade ledger\<close>

text \<open>
  Claim C1 says that every call of \<open>record_trade\<close> appends one row carrying symbol,
  action, price, quantity, funding amount and profit ratio, so that every accepted buy
  and every accepted sell stores such a row. The function of db.py takes five values
  (there is no funding amount) and both callers pass six: on the sell of the spec's
  scenario (20 shares that cost 10, bid 60, reference price 100, order accepted) the
  call raises TypeError after the order went out, and the ledger stays empty.
\<close>

theorem accepted_sell_stores_no_row:
  "sell_stock scenario_config (scenario_gateway 60 50 True True) 100 False
     (empty_world, held_trader) =
   Inl (TypeError,
        empty_world\<lparr>orders := [\<lparr>order_side = SELL, address = ''sell'', wallet = 2,
                                requested = 12, offered = 20, accepted = True\<rparr>],
                     calls := 3\<rparr>,
        held_trader\<lparr>current_price := 60, profit := 12 / 10 - 1\<rparr>)"
  by (simp add: sell_stock_eq scenario_defs submit_def step_def Let_def)

text \<open>
  Claim C4 is the buy scenario of the spec: flat position, increment 10, reference
  price 100, ask 50, order accepted. The order is sent for 20 shares against 10, and
  lines 54 to 62 compute the expected fields (quantity 20, total cost 10, average
  price 0.5, one buy, PENDING\_BUY); then \<open>record_trade\<close> is called with six
  arguments and raises, so no BUY row is stored and the call does not return.
\<close>

theorem accepted_buy_scenario_raises:
  "buy_stock scenario_config (scenario_gateway 60 50 True True) 10 100
     (empty_world, flat_trader) =
   Inl (TypeError,
        empty_world\<lparr>orders := [\<lparr>order_side = BUY, address = ''buy'', wallet = 1,
                                requested = 20, offered = 10, accepted = True\<rparr>],
                     calls := 3\<rparr>,
        flat_trader\<lparr>volume := 20, last_buy_price := 50, total_cost := 10,
                     avg_price := 1 / 2, current_price := 50, profit := 0,
                     position_status := PENDING_BUY, buy_count := 1, last_updated := 1\<rparr>)
   \<and> buy_fill w 50 20 10 100 ts flat_trader =
     Inr (flat_trader\<lparr>volume := 20, last_buy_price := 50, total_cost := 10,
                      avg_price := 1 / 2, current_price := 50, profit := 0,
                      position_status := PENDING_BUY, buy_count := 1, last_updated := ts\<rparr>)"
  by (simp add: buy_stock_eq buy_fill_eq scenario_defs submit_def step_def Let_def)

section \<open>Aborted operations\<close>

text \<open>
  Claim C2 says that a zero price or a rejected order leaves every field of the position
  as it was and appends no trade row. \<open>sell_stock\<close> and \<open>handle_price_drop\<close> store
  the fetched price in \<open>current_price\<close> before they test it: on the held position of
  the scenario (current price 50), a bid of zero makes \<open>sell_stock\<close> return with
  \<open>current_price\<close> zero.
\<close>

theorem sell_abort_overwrites_current_price:
  "sell_stock scenario_config (scenario_gateway 0 0 True True) 100 False
     (empty_world, held_trader) =
   Inr (step empty_world, held_trader\<lparr>current_price := 0\<rparr>)
   \<and> current_price held_trader = 50"
  by (simp add: sell_stock_eq scenario_defs)

text \<open>
  Claim C2 as amended: when the price fetched by the operation is zero, or the gateway
  turns the order down, \<open>buy_stock\<close> returns the position as it was, and
  \<open>sell_stock\<close> and \<open>handle_price_drop\<close> return a position that differs from it
  at most in \<open>current_price\<close> and \<open>profit\<close>; none of the three appends a trade row.
\<close>

theorem abort_keeps_books:
  "(snd (get_stock_price_from_dinari g (calls w) (stock t)) = 0
      \<or> rejected w (buy_stock cfg g xch_volume xch_price (w, t))
    \<longrightarrow> (\<exists>w'. buy_stock cfg g xch_volume xch_price (w, t) = Inr (w', t)
               \<and> trades w' = trades w))
   \<and> (fst (get_stock_price_from_dinari g (calls w) (stock t)) = 0
        \<or> rejected w (sell_stock cfg g xch_price liquid (w, t))
      \<longrightarrow> (\<exists>w' t'. sell_stock cfg g xch_price liquid (w, t) = Inr (w', t')
                 \<and> trades w' = trades w \<and> same_books t t'))
   \<and> (snd (get_stock_price_from_dinari g (calls w) (stock t)) = 0
        \<or> rejected w (handle_price_drop cfg g xch_price (w, t))
      \<longrightarrow> (\<exists>w' t'. handle_price_drop cfg g xch_price (w, t) = Inr (w', t')
                 \<and> trades w' = trades w \<and> same_books t t'))"
  using buy_abort [of g w t cfg xch_volume xch_price]
    sell_abort [of g w t cfg xch_price liquid]
    hpd_abort [of g w t cfg xch_price]
  by blast

theorem abort_keeps_books_witness:
  "(\<exists>w'. buy_stock scenario_config (scenario_gateway 0 0 True True) 10 100
            (empty_world, flat_trader) = Inr (w', flat_trader) \<and> trades w' = [])
   \<and> (\<exists>w' t'. sell_stock scenario_config (scenario_gateway 60 50 False True) 100 False
                (empty_world, held_trader) = Inr (w', t')
              \<and> trades w' = [] \<and> same_books held_trader t')
   \<and> (\<exists>w' t'. handle_price_drop scenario_config
                (with_ledger (scenario_gateway 30 30 False True) bought_ledger) 100
                (empty_world, capped_trader) = Inr (w', t')
              \<and> trades w' = [] \<and> same_books capped_trader t')"
proof -
  have zero: "snd (get_stock_price_from_dinari (scenario_gateway 0 0 True True)
                (calls empty_world) (stock flat_trader)) = 0"
    by (simp add: scenario_defs)
  have sell: "rejected empty_world
                (sell_stock scenario_config (scenario_gateway 60 50 False True) 100 False
                   (empty_world, held_trader))"
    by (simp add: sell_stock_eq rejected_def new_orders_def scenario_defs Let_def)
  have drawdown: "rejected empty_world
                (handle_price_drop scenario_config
                   (with_ledger (scenario_gateway 30 30 False True) bought_ledger) 100
                   (empty_world, capped_trader))"
    by (simp add: hpd_eval rejected_def scenario_defs)
  show ?thesis
    using zero sell drawdown
      abort_keeps_books [of "scenario_gateway 0 0 True True" empty_world flat_trader
        scenario_config 10 100 False]
      abort_keeps_books [of "scenario_gateway 60 50 False True" empty_world held_trader
        scenario_config 10 100 False]
      abort_keeps_books [of "with_ledger (scenario_gateway 30 30 False True) bought_ledger"
        empty_world capped_trader scenario_config 10 100 False]
    by (simp add: empty_world_def)
qed

section \<open>The decision to sell\<close>

text \<open>
  Claim C3 says that \<open>sell_stock\<close>, for holdings above zero and a nonzero bid, computes
  proceeds and profit ratio, sends an order exactly when the ratio reaches the threshold
  or the sale is forced, and otherwise leaves the position and the ledger untouched.
  Below the threshold the call still stores the bid and the ratio in the position (60
  and 0.2 become 50 and 0), and with a total cost of zero the ratio is not computed:
  the division raises.
\<close>

theorem sell_refreshes_fields_and_divides:
  "sell_stock scenario_config (scenario_gateway 50 50 True True) 100 False
     (empty_world, held_trader\<lparr>current_price := 60, profit := 1 / 5\<rparr>) =
   Inr (step empty_world, held_trader)
   \<and> held_trader \<noteq> held_trader\<lparr>current_price := 60, profit := 1 / 5\<rparr>
   \<and> sell_stock scenario_config (scenario_gateway 60 50 True True) 100 False
       (empty_world, held_trader\<lparr>total_cost := 0\<rparr>) =
     Inl (ZeroDivisionError, step empty_world,
          held_trader\<lparr>total_cost := 0, current_price := 60\<rparr>)"
  by (simp add: sell_stock_eq scenario_defs Let_def)

text \<open>
  Claim C3 as amended: for a nonzero bid, a nonzero total cost and a nonzero reference
  price, the orders that \<open>sell_stock\<close> sends are one order for the whole holdings
  against \<open>volume * bid / xch_price\<close> when \<open>volume * bid / xch_price / total_cost - 1\<close>
  reaches \<open>MIN_PROFIT\<close> or the sale is forced, and none otherwise; in the latter case
  the call returns with the ledger untouched and the position changed in
  \<open>current_price\<close> and \<open>profit\<close> only. The products, the quotients, the difference and
  the comparison are those of the numbers of the trader, in the order in which lines
  71 to 73 evaluate them.
\<close>

theorem sell_decision:
  "fst (get_stock_price_from_dinari g (calls w) (stock t)) = bid \<and> bid \<noteq> 0
     \<and> total_cost t \<noteq> 0 \<and> xch_price \<noteq> 0 \<longrightarrow>
   new_orders w (sell_stock cfg g xch_price liquid (w, t)) =
     (if MIN_PROFIT cfg \<le> volume t * bid / xch_price / total_cost t - 1 \<or> liquid
      then [\<lparr>order_side = SELL, address = sell_addr cfg (stock t), wallet = wallet_id t,
              requested = volume t * bid / xch_price, offered = volume t,
              accepted = send_asset g (calls w + 2) (sell_addr cfg (stock t)) (wallet_id t)
                           (volume t * bid / xch_price) (volume t)\<rparr>]
      else [])
   \<and> (\<not> (MIN_PROFIT cfg \<le> volume t * bid / xch_price / total_cost t - 1 \<or> liquid) \<longrightarrow>
        sell_stock cfg g xch_price liquid (w, t) =
          Inr (step w, t\<lparr>current_price := bid,
                          profit := volume t * bid / xch_price / total_cost t - 1\<rparr>)
        \<and> trades (step w) = trades w)"
  by (simp add: sell_stock_eq new_orders_def Let_def)

theorem sell_decision_witness:
  "new_orders empty_world
     (sell_stock scenario_config (scenario_gateway 60 50 True True) 100 False
        (empty_world, held_trader)) =
     [\<lparr>order_side = SELL, address = ''sell'', wallet = 2, requested = 12, offered = 20,
       accepted = True\<rparr>]
   \<and> sell_stock scenario_config (scenario_gateway 50 50 True True) 100 False
       (empty_world, held_trader) =
     Inr (step empty_world, held_trader\<lparr>current_price := 50, profit := 0\<rparr>)"
  using sell_decision [of "scenario_gateway 60 50 True True" empty_world held_trader 60 100
          scenario_config False]
    sell_decision [of "scenario_gateway 50 50 True True" empty_world held_trader 50 100
          scenario_config False]
  by (simp add: scenario_defs)

section \<open>The drawdown\<close>

text \<open>
  Claim C5: within one call of \<open>handle_price_drop\<close>, a sell order goes out only when
  the buy count equals \<open>MAX_BUY_TIMES\<close> and the recomputed profit ratio is below
  \<open>- MAX_LOSS_PERCENTAGE\<close>; a buy order goes out only when that is not the case,
  the drop reaches \<open>DCA_PERCENTAGE\<close> and the buy count is below \<open>MAX_BUY_TIMES\<close>;
  and the call sends at most one order, so the two branches exclude each other. The
  profit ratio and the drop are the values that lines 90 and 93 compute, in the
  arithmetic of the trader.
\<close>

theorem drawdown_branches:
  "(\<forall>x \<in> set (new_orders w (handle_price_drop cfg g xch_price (w, t))).
      \<exists>p last_price d.
        holding_profit xch_price
          (t\<lparr>current_price := snd (get_stock_price_from_dinari g (calls w) (stock t))\<rparr>) = Inr p
        \<and> last_trade_price (get_last_trade g (step w) (stock t)) = Inr last_price
        \<and> drop_percentage last_price
            (snd (get_stock_price_from_dinari g (calls w) (stock t))) xch_price = Inr d
        \<and> (order_side x = SELL \<longrightarrow>
              buy_count t = MAX_BUY_TIMES cfg \<and> p < - MAX_LOSS_PERCENTAGE cfg)
        \<and> (order_side x = BUY \<longrightarrow>
              \<not> (buy_count t = MAX_BUY_TIMES cfg \<and> p < - MAX_LOSS_PERCENTAGE cfg)
              \<and> DCA_PERCENTAGE cfg \<le> d \<and> buy_count t < MAX_BUY_TIMES cfg))
   \<and> length (new_orders w (handle_price_drop cfg g xch_price (w, t))) \<le> 1"
proof (cases "snd (get_stock_price_from_dinari g (calls w) (stock t)) = 0")
  case True
  then show ?thesis
    by (simp add: handle_price_drop_eq new_orders_def)
next
  case ask: False
  let ?ask = "snd (get_stock_price_from_dinari g (calls w) (stock t))"
  show ?thesis
  proof (cases "holding_profit xch_price (t\<lparr>current_price := ?ask\<rparr>)")
    case (Inl e)
    with ask show ?thesis
      by (simp add: handle_price_drop_eq new_orders_def)
  next
    case p: (Inr p)
    show ?thesis
    proof (cases "last_trade_price (get_last_trade g (step w) (stock t))")
      case (Inl e)
      with ask p show ?thesis
        by (simp add: handle_price_drop_eq new_orders_def)
    next
      case lp: (Inr lp)
      show ?thesis
      proof (cases "drop_percentage lp ?ask xch_price")
        case (Inl e)
        with ask p lp show ?thesis
          by (simp add: handle_price_drop_eq new_orders_def)
      next
        case d: (Inr d)
        let ?sl = "buy_count t = MAX_BUY_TIMES cfg \<and> p < - MAX_LOSS_PERCENTAGE cfg"
        let ?dca = "DCA_PERCENTAGE cfg \<le> d \<and> buy_count t < MAX_BUY_TIMES cfg"
        let ?t2 = "t\<lparr>current_price := ?ask, profit := p\<rparr>"
        from ask p lp d
        have hpd: "handle_price_drop cfg g xch_price (w, t) =
                   drop_decision cfg g xch_price d (step w, ?t2)"
          by (simp add: handle_price_drop_eq Let_def)
        consider (stop_loss) "?sl" | (repurchase) "\<not> ?sl" "?dca" | (neither) "\<not> ?sl" "\<not> ?dca"
          by blast
        then show ?thesis
        proof cases
          case stop_loss
          with p lp d show ?thesis
            unfolding hpd by (simp add: drop_decision_eq Let_def new_orders_def)
        next
          case repurchase
          then have eq: "drop_decision cfg g xch_price d (step w, ?t2) =
                    buy_stock cfg g (BUY_PERCENTAGE cfg * INVESTED_XCH cfg) xch_price (step w, ?t2)"
            by (auto simp add: drop_decision_eq)
          have "orders (step w) = orders w" by simp
          from buy_orders [OF this, of cfg g "BUY_PERCENTAGE cfg * INVESTED_XCH cfg" xch_price ?t2]
          show ?thesis
            unfolding hpd eq using p lp d repurchase by auto
        next
          case neither
          then have "drop_decision cfg g xch_price d (step w, ?t2) = Inr (step w, ?t2)"
            by (auto simp add: drop_decision_eq)
          then show ?thesis
            unfolding hpd by (simp add: new_orders_def)
        qed
      qed
    qed
  qed
qed

theorem drawdown_branches_witness:
  "new_orders empty_world
     (handle_price_drop scenario_config
        (with_ledger (scenario_gateway 30 30 True True) bought_ledger) 100
        (empty_world, capped_trader)) =
     [\<lparr>order_side = SELL, address = ''sell'', wallet = 2, requested = 6, offered = 20,
       accepted = True\<rparr>]
   \<and> buy_count capped_trader = MAX_BUY_TIMES scenario_config
   \<and> new_orders empty_world
       (handle_price_drop scenario_config
          (with_ledger (scenario_gateway 40 40 True True) bought_ledger) 100
          (empty_world, held_trader)) =
       [\<lparr>order_side = BUY, address = ''buy'', wallet = 1, requested = 25, offered = 10,
         accepted = True\<rparr>]
   \<and> buy_count held_trader < MAX_BUY_TIMES scenario_config"
proof -
  have sold: "new_orders empty_world
     (handle_price_drop scenario_config
        (with_ledger (scenario_gateway 30 30 True True) bought_ledger) 100
        (empty_world, capped_trader)) =
     [\<lparr>order_side = SELL, address = ''sell'', wallet = 2, requested = 6, offered = 20,
       accepted = True\<rparr>]"
    by (simp add: hpd_eval scenario_defs)
  have bought: "new_orders empty_world
       (handle_price_drop scenario_config
          (with_ledger (scenario_gateway 40 40 True True) bought_ledger) 100
          (empty_world, held_trader)) =
       [\<lparr>order_side = BUY, address = ''buy'', wallet = 1, requested = 25, offered = 10,
         accepted = True\<rparr>]"
    by (simp add: hpd_eval scenario_defs)
  from drawdown_branches [of empty_world scenario_config
         "with_ledger (scenario_gateway 30 30 True True) bought_ledger" 100 capped_trader]
  have "buy_count capped_trader = MAX_BUY_TIMES scenario_config"
    unfolding sold by auto
  moreover
  from drawdown_branches [of empty_world scenario_config
         "with_ledger (scenario_gateway 40 40 True True) bought_ledger" 100 held_trader]
  have "buy_count held_trader < MAX_BUY_TIMES scenario_config"
    unfolding bought by auto
  ultimately show ?thesis
    using sold bought by simp
qed



text \<open>
  Claim C10: once the ask price is there, \<open>handle_price_drop\<close> indexes the last
  trade and divides by the last price without a test. With no last trade the call
  raises (TypeError from the subscript, unless the profit ratio before it already
  divided by zero); with a last price of zero it raises ZeroDivisionError; and a call
  that returns had a last trade with a nonzero last price. The raise leaves the
  position with the ask as its current price and, when line 90 was passed, with the
  profit ratio of that line.
\<close>

theorem drawdown_needs_last_trade:
  "snd (get_stock_price_from_dinari g (calls w) (stock t)) = ask \<and> ask \<noteq> 0 \<longrightarrow>
   (get_last_trade g (step w) (stock t) = None \<longrightarrow>
      handle_price_drop cfg g xch_price (w, t) =
        Inl (if xch_price = 0 \<or> total_cost t = 0 then ZeroDivisionError else TypeError, step w,
             if xch_price = 0 \<or> total_cost t = 0 then t\<lparr>current_price := ask\<rparr>
             else t\<lparr>current_price := ask,
                    profit := volume t * ask / xch_price / total_cost t - 1\<rparr>))
   \<and> (last_trade_price (get_last_trade g (step w) (stock t)) = Inr 0 \<longrightarrow>
        handle_price_drop cfg g xch_price (w, t) =
          Inl (ZeroDivisionError, step w,
               if xch_price = 0 \<or> total_cost t = 0 then t\<lparr>current_price := ask\<rparr>
               else t\<lparr>current_price := ask,
                      profit := volume t * ask / xch_price / total_cost t - 1\<rparr>))
   \<and> (\<forall>r. handle_price_drop cfg g xch_price (w, t) = Inr r \<longrightarrow>
        (\<exists>row lp. get_last_trade g (step w) (stock t) = Some row
           \<and> last_trade_price (Some row) = Inr lp \<and> lp \<noteq> 0))"
proof (intro impI conjI allI)
  assume "snd (get_stock_price_from_dinari g (calls w) (stock t)) = ask \<and> ask \<noteq> 0"
    and "get_last_trade g (step w) (stock t) = None"
  then show "handle_price_drop cfg g xch_price (w, t) =
        Inl (if xch_price = 0 \<or> total_cost t = 0 then ZeroDivisionError else TypeError, step w,
             if xch_price = 0 \<or> total_cost t = 0 then t\<lparr>current_price := ask\<rparr>
             else t\<lparr>current_price := ask,
                    profit := volume t * ask / xch_price / total_cost t - 1\<rparr>)"
    by (auto simp add: handle_price_drop_eq holding_profit_eq last_trade_price_None Let_def)
next
  assume "snd (get_stock_price_from_dinari g (calls w) (stock t)) = ask \<and> ask \<noteq> 0"
    and "last_trade_price (get_last_trade g (step w) (stock t)) = Inr 0"
  then show "handle_price_drop cfg g xch_price (w, t) =
          Inl (ZeroDivisionError, step w,
               if xch_price = 0 \<or> total_cost t = 0 then t\<lparr>current_price := ask\<rparr>
               else t\<lparr>current_price := ask,
                      profit := volume t * ask / xch_price / total_cost t - 1\<rparr>)"
    by (auto simp add: handle_price_drop_eq holding_profit_eq drop_percentage_zero Let_def)
next
  fix r
  assume ask: "snd (get_stock_price_from_dinari g (calls w) (stock t)) = ask \<and> ask \<noteq> 0"
    and ret: "handle_price_drop cfg g xch_price (w, t) = Inr r"
  from ask ret obtain lp where
    lp: "last_trade_price (get_last_trade g (step w) (stock t)) = Inr lp"
    by (auto simp add: handle_price_drop_eq Let_def split: sum.splits)
  from last_trade_price_Some [OF lp] obtain row where
    row: "get_last_trade g (step w) (stock t) = Some row" ..
  have "lp \<noteq> 0"
  proof
    assume "lp = 0"
    with ask ret lp show False
      by (auto simp add: handle_price_drop_eq drop_percentage_zero Let_def split: sum.splits)
  qed
  with lp row
  show "\<exists>row lp. get_last_trade g (step w) (stock t) = Some row
           \<and> last_trade_price (Some row) = Inr lp \<and> lp \<noteq> 0"
    by auto
qed

theorem drawdown_needs_last_trade_witness:
  "handle_price_drop scenario_config (scenario_gateway 45 45 True True) 100
     (empty_world, held_trader) =
   Inl (TypeError, step empty_world, held_trader\<lparr>current_price := 45, profit := 9 / 10 - 1\<rparr>)
   \<and> handle_price_drop scenario_config
       (with_ledger (scenario_gateway 45 45 True True) unfunded_ledger) 100
       (empty_world, held_trader) =
     Inl (ZeroDivisionError, step empty_world,
          held_trader\<lparr>current_price := 45, profit := 9 / 10 - 1\<rparr>)
   \<and> (\<exists>row lp. lastTrade bought_ledger ''AAPL'' = Some row
        \<and> last_trade_price (Some row) = Inr lp \<and> lp \<noteq> 0)"
proof -
  let ?e = "scenario_gateway 45 45 True True"
  let ?u = "with_ledger (scenario_gateway 45 45 True True) unfunded_ledger"
  let ?b = "with_ledger (scenario_gateway 50 50 True True) bought_ledger"
  have ask: "snd (get_stock_price_from_dinari ?e (calls empty_world) (stock held_trader)) = 45 \<and> (45 :: real) \<noteq> 0"
    "snd (get_stock_price_from_dinari ?u (calls empty_world) (stock held_trader)) = 45 \<and> (45 :: real) \<noteq> 0"
    "snd (get_stock_price_from_dinari ?b (calls empty_world) (stock held_trader)) = 50 \<and> (50 :: real) \<noteq> 0"
    by (simp_all add: scenario_defs)
  have none: "get_last_trade ?e (step empty_world) (stock held_trader) = None"
    by (simp add: scenario_defs lastTrade_def)
  have zero: "last_trade_price (get_last_trade ?u (step empty_world) (stock held_trader)) = Inr 0"
    by (simp add: scenario_defs lastTrade_def trade_tuple_def last_trade_price_def
          subscript_def py_div_def)
  have returns: "handle_price_drop scenario_config ?b 100 (empty_world, held_trader) =
                 Inr (step empty_world, held_trader\<lparr>current_price := 50, profit := 0\<rparr>)"
    by (simp add: hpd_eval scenario_defs)
  have led: "get_last_trade ?b (step empty_world) (stock held_trader) = lastTrade bought_ledger ''AAPL''"
    by (simp add: scenario_defs)
  from drawdown_needs_last_trade [of ?e empty_world held_trader 45 scenario_config 100]
    ask(1) none
  have c1: "handle_price_drop scenario_config ?e 100 (empty_world, held_trader) =
      Inl (TypeError, step empty_world, held_trader\<lparr>current_price := 45, profit := 9 / 10 - 1\<rparr>)"
    by (simp add: held_trader_def)
  from drawdown_needs_last_trade [of ?u empty_world held_trader 45 scenario_config 100]
    ask(2) zero
  have c2: "handle_price_drop scenario_config ?u 100 (empty_world, held_trader) =
      Inl (ZeroDivisionError, step empty_world,
           held_trader\<lparr>current_price := 45, profit := 9 / 10 - 1\<rparr>)"
    by (simp add: held_trader_def)
  from drawdown_needs_last_trade [of ?b empty_world held_trader 50 scenario_config 100]
    ask(3) returns
  have c3: "\<exists>row lp. lastTrade bought_ledger ''AAPL'' = Some row
        \<and> last_trade_price (Some row) = Inr lp \<and> lp \<noteq> 0"
    unfolding led by simp
  from c1 c2 c3 show ?thesis
    by blast
qed

section \<open>Holdings and cost\<close>

text \<open>
  Claim C8 says that "no holdings, no cost" holds after the construction of a position
  without a stored record and is preserved by \<open>buy_stock\<close>, \<open>sell_stock\<close> and
  \<open>handle_price_drop\<close> whatever their outcome. An accepted buy adds the funding
  amount to \<open>total_cost\<close> (line 56) before it divides by the new holdings (line 57):
  on the flat position of the scenario, with increment 10, ask 50 and a reference
  price of zero, the order goes out for 0 shares against 10 and the division raises,
  leaving a position with no holdings and a cost of 10.
\<close>

theorem zero_quantity_buy_leaves_cost:
  "buy_stock scenario_config (scenario_gateway 60 50 True True) 10 0
     (empty_world, flat_trader) =
   Inl (ZeroDivisionError,
        empty_world\<lparr>orders := [\<lparr>order_side = BUY, address = ''buy'', wallet = 1,
                                requested = 0, offered = 10, accepted = True\<rparr>],
                     calls := 3\<rparr>,
        flat_trader\<lparr>volume := 0, last_buy_price := 50, total_cost := 10\<rparr>)
   \<and> cost_invariant flat_trader
   \<and> \<not> cost_invariant (flat_trader\<lparr>volume := 0, last_buy_price := 50, total_cost := 10\<rparr>)"
  by (simp add: buy_stock_eq buy_fill_eq cost_invariant_def scenario_defs submit_def step_def
        Let_def)

text \<open>
  Claim C8 as amended: a position built without a stored record has no holdings and no
  cost; \<open>sell_stock\<close> preserves "no holdings, no cost" whatever its outcome (return or
  raise); the bookkeeping of an accepted buy establishes it when it completes;
  \<open>buy_stock\<close> preserves it whatever its outcome, except when the division by the new
  holdings (line 57) raises because these are zero, which leaves the position with the
  cost increased; and \<open>handle_price_drop\<close> preserves it whatever its outcome, except
  when it ends in that repurchase.
\<close>

theorem cost_invariant_unless_holdings_division:
  "(get_position w s = None \<longrightarrow> cost_invariant (snd (StockTrader g s w)))
   \<and> (cost_invariant t \<longrightarrow>
        cost_invariant (trader_of (sell_stock cfg g xch_price liquid (w, t))))
   \<and> (buy_fill w price quantity xch_volume xch_price ts t = Inr t1 \<longrightarrow> cost_invariant t1)
   \<and> (cost_invariant t \<and> snd (get_stock_price_from_dinari g (calls w) (stock t)) = ask \<longrightarrow>
        cost_invariant (trader_of (buy_stock cfg g xch_volume xch_price (w, t)))
        \<or> volume t + xch_volume * xch_price / ask = 0
          \<and> (\<exists>w'. buy_stock cfg g xch_volume xch_price (w, t) =
                Inl (ZeroDivisionError, w',
                     t\<lparr>volume := volume t + xch_volume * xch_price / ask,
                       last_buy_price := ask, total_cost := total_cost t + xch_volume\<rparr>)))
   \<and> (cost_invariant t \<longrightarrow>
        cost_invariant (trader_of (handle_price_drop cfg g xch_price (w, t)))
        \<or> (\<exists>w2 t2. same_books t t2
              \<and> handle_price_drop cfg g xch_price (w, t) =
                buy_stock cfg g (BUY_PERCENTAGE cfg * INVESTED_XCH cfg) xch_price (w2, t2)))"
proof (intro conjI impI)
  assume "get_position w s = None"
  then show "cost_invariant (snd (StockTrader g s w))"
    by (simp add: StockTrader_fresh cost_invariant_def)
next
  assume "cost_invariant t"
  then show "cost_invariant (trader_of (sell_stock cfg g xch_price liquid (w, t)))"
    by (simp add: sell_stock_eq cost_invariant_def Let_def)
next
  assume "buy_fill w price quantity xch_volume xch_price ts t = Inr t1"
  then show "cost_invariant t1"
    by (auto simp add: buy_fill_eq cost_invariant_def Let_def split: if_splits)
next
  assume "cost_invariant t \<and> snd (get_stock_price_from_dinari g (calls w) (stock t)) = ask"
  then show "cost_invariant (trader_of (buy_stock cfg g xch_volume xch_price (w, t)))
        \<or> volume t + xch_volume * xch_price / ask = 0
          \<and> (\<exists>w'. buy_stock cfg g xch_volume xch_price (w, t) =
                Inl (ZeroDivisionError, w',
                     t\<lparr>volume := volume t + xch_volume * xch_price / ask,
                       last_buy_price := ask, total_cost := total_cost t + xch_volume\<rparr>))"
    by (auto simp add: buy_stock_eq buy_fill_eq cost_invariant_def Let_def)
next
  assume inv: "cost_invariant t"
  let ?ask = "snd (get_stock_price_from_dinari g (calls w) (stock t))"
  let ?goal = "cost_invariant (trader_of (handle_price_drop cfg g xch_price (w, t)))
        \<or> (\<exists>w2 t2. same_books t t2
              \<and> handle_price_drop cfg g xch_price (w, t) =
                buy_stock cfg g (BUY_PERCENTAGE cfg * INVESTED_XCH cfg) xch_price (w2, t2))"
  show ?goal
  proof (cases "?ask = 0")
    case True
    with inv show ?thesis
      by (simp add: handle_price_drop_eq cost_invariant_def)
  next
    case ask: False
    show ?thesis
    proof (cases "holding_profit xch_price (t\<lparr>current_price := ?ask\<rparr>)")
      case (Inl e)
      with ask inv show ?thesis
        by (simp add: handle_price_drop_eq cost_invariant_def)
    next
      case p: (Inr p)
      let ?t2 = "t\<lparr>current_price := ?ask, profit := p\<rparr>"
      have books: "same_books t ?t2"
        by (simp add: same_books_def)
      from inv have inv2: "cost_invariant ?t2"
        by (simp add: cost_invariant_def)
      show ?thesis
      proof (cases "last_trade_price (get_last_trade g (step w) (stock t))")
        case (Inl e)
        with ask p inv2 show ?thesis
          by (simp add: handle_price_drop_eq)
      next
        case lp: (Inr lp)
        show ?thesis
        proof (cases "drop_percentage lp ?ask xch_price")
          case (Inl e)
          with ask p lp inv2 show ?thesis
            by (simp add: handle_price_drop_eq)
        next
          case (Inr d)
          with ask p lp
          have hpd: "handle_price_drop cfg g xch_price (w, t) =
                     drop_decision cfg g xch_price d (step w, ?t2)"
            by (simp add: handle_price_drop_eq Let_def)
          show ?thesis
          proof (cases "buy_count t = MAX_BUY_TIMES cfg \<and> p < - MAX_LOSS_PERCENTAGE cfg")
            case True
            with inv show ?thesis
              unfolding hpd by (simp add: drop_decision_eq cost_invariant_def Let_def)
          next
            case sl: False
            show ?thesis
            proof (cases "DCA_PERCENTAGE cfg \<le> d \<and> buy_count t < MAX_BUY_TIMES cfg")
              case True
              with sl have "drop_decision cfg g xch_price d (step w, ?t2) =
                  buy_stock cfg g (BUY_PERCENTAGE cfg * INVESTED_XCH cfg) xch_price (step w, ?t2)"
                by (auto simp add: drop_decision_eq)
              with books show ?thesis
                unfolding hpd by blast
            next
              case False
              with sl inv show ?thesis
                unfolding hpd by (auto simp add: drop_decision_eq cost_invariant_def)
            qed
          qed
        qed
      qed
    qed
  qed
qed

theorem cost_invariant_unless_holdings_division_witness:
  "cost_invariant (snd (StockTrader (scenario_gateway 60 50 True True) ''AAPL'' empty_world))
   \<and> cost_invariant
       (trader_of (sell_stock scenario_config (scenario_gateway 60 50 True True) 100 False
          (empty_world, held_trader)))
   \<and> cost_invariant
       (flat_trader\<lparr>volume := 20, last_buy_price := 50, total_cost := 10,
                     avg_price := 1 / 2, current_price := 50, profit := 0,
                     position_status := PENDING_BUY, buy_count := 1, last_updated := 7\<rparr>)
   \<and> cost_invariant
       (trader_of (buy_stock scenario_config (scenario_gateway 60 50 True True) 10 100
          (empty_world, flat_trader)))
   \<and> (\<exists>w'. buy_stock scenario_config (scenario_gateway 60 50 True True) 10 0
              (empty_world, flat_trader) =
            Inl (ZeroDivisionError, w',
                 flat_trader\<lparr>volume := 0, last_buy_price := 50, total_cost := 10\<rparr>))
   \<and> cost_invariant
       (trader_of (handle_price_drop scenario_config
          (with_ledger (scenario_gateway 50 50 True True) bought_ledger) 100
          (empty_world, held_trader)))"
proof -
  let ?g = "scenario_gateway 60 50 True True"
  let ?b = "with_ledger (scenario_gateway 50 50 True True) bought_ledger"
  note inv = cost_invariant_unless_holdings_division
  have fresh: "get_position empty_world ''AAPL'' = None"
    by (simp add: get_position_def empty_world_def)
  have fill: "buy_fill empty_world 50 20 10 100 7 flat_trader =
     Inr (flat_trader\<lparr>volume := 20, last_buy_price := 50, total_cost := 10,
                      avg_price := 1 / 2, current_price := 50, profit := 0,
                      position_status := PENDING_BUY, buy_count := 1, last_updated := 7\<rparr>)"
    by (simp add: buy_fill_eq scenario_defs)
  have flat: "cost_invariant flat_trader"
    by (simp add: cost_invariant_def flat_trader_def)
  have held: "cost_invariant held_trader"
    by (simp add: cost_invariant_def held_trader_def)
  have ask: "snd (get_stock_price_from_dinari ?g (calls empty_world) (stock flat_trader)) = 50"
    by (simp add: scenario_defs)
  have bought: "trader_of (buy_stock scenario_config ?g 10 100 (empty_world, flat_trader)) =
      flat_trader\<lparr>volume := 20, last_buy_price := 50, total_cost := 10,
                   avg_price := 1 / 2, current_price := 50, profit := 0,
                   position_status := PENDING_BUY, buy_count := 1, last_updated := 1\<rparr>"
    by (simp add: buy_stock_eq buy_fill_eq scenario_defs Let_def)
  have broken: "\<not> cost_invariant
      (trader_of (buy_stock scenario_config ?g 10 0 (empty_world, flat_trader)))"
    by (simp add: buy_stock_eq buy_fill_eq cost_invariant_def scenario_defs Let_def)
  have returned: "handle_price_drop scenario_config ?b 100 (empty_world, held_trader) =
      Inr (step empty_world, held_trader\<lparr>current_price := 50, profit := 0\<rparr>)"
    by (simp add: hpd_eval scenario_defs)
  from inv [of empty_world "''AAPL''" ?g] fresh
  have c1: "cost_invariant (snd (StockTrader ?g ''AAPL'' empty_world))"
    by blast
  from inv [where t = held_trader and cfg = scenario_config and g = ?g and xch_price = 100
      and liquid = False and w = empty_world] held
  have c2: "cost_invariant
       (trader_of (sell_stock scenario_config ?g 100 False (empty_world, held_trader)))"
    by blast
  from inv [where w = empty_world and price = 50 and quantity = 20 and xch_volume = 10
      and xch_price = 100 and ts = 7 and t = flat_trader] fill
  have c3: "cost_invariant
       (flat_trader\<lparr>volume := 20, last_buy_price := 50, total_cost := 10,
                     avg_price := 1 / 2, current_price := 50, profit := 0,
                     position_status := PENDING_BUY, buy_count := 1, last_updated := 7\<rparr>)"
    by blast
  from inv [where t = flat_trader and cfg = scenario_config and g = ?g and xch_volume = 10
      and xch_price = 100 and w = empty_world and ask = 50, THEN conjunct2, THEN conjunct2,
      THEN conjunct2, THEN conjunct1] flat ask
  have c4: "cost_invariant
       (trader_of (buy_stock scenario_config ?g 10 100 (empty_world, flat_trader)))"
    by (simp add: flat_trader_def)
  from inv [where t = flat_trader and cfg = scenario_config and g = ?g and xch_volume = 10
      and xch_price = 0 and w = empty_world and ask = 50, THEN conjunct2, THEN conjunct2,
      THEN conjunct2, THEN conjunct1] flat ask broken
  have c5: "\<exists>w'. buy_stock scenario_config ?g 10 0 (empty_world, flat_trader) =
            Inl (ZeroDivisionError, w',
                 flat_trader\<lparr>volume := 0, last_buy_price := 50, total_cost := 10\<rparr>)"
    by (simp add: flat_trader_def)
  from inv [where t = held_trader and cfg = scenario_config and g = ?b and xch_price = 100
      and w = empty_world, THEN conjunct2, THEN conjunct2, THEN conjunct2, THEN conjunct2]
    held
  have c6: "cost_invariant
       (trader_of (handle_price_drop scenario_config ?b 100 (empty_world, held_trader)))"
    unfolding returned by (simp add: cost_invariant_def held_trader_def)
  from c1 c2 c3 c4 c5 c6 show ?thesis
    by blast
qed

text \<open>
  Claim C9: \<open>sell_stock\<close> divides by \<open>total_cost\<close> without a test. With the bid
  fetched and a total cost of zero it raises ZeroDivisionError, whatever the holdings;
  the loop sends a tradable position with holdings above zero (\<open>volume == 0\<close> is
  tested first, then \<open>volume > 0\<close>) to \<open>sell_stock\<close> when the market is open, and the
  constructor takes holdings, cost and status from the stored record as they are.
\<close>

theorem sell_zero_cost_raises:
  "(fst (get_stock_price_from_dinari g (calls w) (stock t)) \<noteq> 0 \<and> total_cost t = 0
      \<longrightarrow> sell_stock cfg g xch_price liquid (w, t) =
          Inl (ZeroDivisionError, step w,
               t\<lparr>current_price := fst (get_stock_price_from_dinari g (calls w) (stock t))\<rparr>))
   \<and> (position_status t = TRADABLE \<and> is_market_open g (calls w)
        \<and> volume t \<noteq> 0 \<and> 0 < volume t
        \<and> fst (get_stock_price_from_dinari g (Suc (calls w)) (stock t)) \<noteq> 0
        \<and> total_cost t = 0
      \<longrightarrow> trade_one cfg g xch_price (w, t) =
          Inl (ZeroDivisionError, step (step w),
               t\<lparr>current_price :=
                    fst (get_stock_price_from_dinari g (Suc (calls w)) (stock t))\<rparr>))
   \<and> (get_position w s = Some r
      \<longrightarrow> volume (snd (StockTrader g s w)) = volume_col r
          \<and> total_cost (snd (StockTrader g s w)) = total_cost_col r
          \<and> position_status (snd (StockTrader g s w)) = status_col r)"
proof (intro conjI impI)
  assume "fst (get_stock_price_from_dinari g (calls w) (stock t)) \<noteq> 0 \<and> total_cost t = 0"
  then show "sell_stock cfg g xch_price liquid (w, t) =
          Inl (ZeroDivisionError, step w,
               t\<lparr>current_price := fst (get_stock_price_from_dinari g (calls w) (stock t))\<rparr>)"
    by (simp add: sell_stock_eq)
next
  assume a: "position_status t = TRADABLE \<and> is_market_open g (calls w)
        \<and> volume t \<noteq> 0 \<and> 0 < volume t
        \<and> fst (get_stock_price_from_dinari g (Suc (calls w)) (stock t)) \<noteq> 0
        \<and> total_cost t = 0"
  then have "sell_stock cfg g xch_price False (step w, t) =
      Inl (ZeroDivisionError, step (step w),
           t\<lparr>current_price := fst (get_stock_price_from_dinari g (Suc (calls w)) (stock t))\<rparr>)"
    by (simp add: sell_stock_eq)
  with a show "trade_one cfg g xch_price (w, t) =
      Inl (ZeroDivisionError, step (step w),
           t\<lparr>current_price := fst (get_stock_price_from_dinari g (Suc (calls w)) (stock t))\<rparr>)"
    by (simp add: trade_one_def trade_one_sells)
next
  assume "get_position w s = Some r"
  then show "volume (snd (StockTrader g s w)) = volume_col r"
    and "total_cost (snd (StockTrader g s w)) = total_cost_col r"
    and "position_status (snd (StockTrader g s w)) = status_col r"
    by (simp_all add: StockTrader_stored)
qed

theorem sell_zero_cost_raises_witness:
  "tick scenario_config (scenario_gateway 60 50 True True)
     (make_traders (scenario_gateway 60 50 True True) (TRADING_SYMBOLS scenario_config)
        stored_world) =
   Inl (ZeroDivisionError, stored_world\<lparr>calls := 5\<rparr>,
        held_trader\<lparr>total_cost := 0, avg_price := 0, current_price := 60\<rparr>)"
proof -
  let ?g = "scenario_gateway 60 50 True True"
  have stored: "get_position stored_world ''AAPL'' =
      Some \<lparr>volume_col = 20, buy_count_col = 1, last_buy_price_col = 50,
            total_cost_col = 0, avg_price_col = 0, current_price_col = 50,
            profit_col = 0, status_col = TRADABLE, last_updated_col = 0\<rparr>"
    by (simp add: get_position_def stored_world_def empty_world_def)
  obtain w t where wt: "StockTrader ?g ''AAPL'' stored_world = (w, t)"
    by (cases "StockTrader ?g ''AAPL'' stored_world")
  from wt StockTrader_stored [OF stored, of ?g]
  have w: "w = step (step stored_world)"
    and t: "t = held_trader\<lparr>total_cost := 0, avg_price := 0\<rparr>"
    by (auto simp add: held_trader_def scenario_gateway_def)
  from t have s: "stock t = ''AAPL''"
    and st: "position_status t = TRADABLE" and v: "volume t = 20" and c: "total_cost t = 0"
    by (simp_all add: held_trader_def)
  have mk: "make_traders ?g (TRADING_SYMBOLS scenario_config) stored_world = (w, [t])"
    by (simp add: scenario_config_def wt)
  have xp: "get_xch_price ?g (calls w) = Some 100"
    and opened: "is_market_open ?g (calls (step w))"
    and bid: "fst (get_stock_price_from_dinari ?g (Suc (calls (step w))) (stock t)) = 60"
    by (simp_all add: scenario_gateway_def)
  from sell_zero_cost_raises [of ?g "step w" t scenario_config 100 False,
      THEN conjunct2, THEN conjunct1] st opened v bid c
  have one: "trade_one scenario_config ?g 100 (step w, t) =
             Inl (ZeroDivisionError, step (step (step w)), t\<lparr>current_price := 60\<rparr>)"
    by simp
  have "tick scenario_config ?g (w, [t]) =
        Inl (ZeroDivisionError, step (step (step w)), t\<lparr>current_price := 60\<rparr>)"
    by (simp add: tick_def xp one)
  moreover have "step (step (step w)) = stored_world\<lparr>calls := 5\<rparr>"
    by (simp add: w step_def stored_world_def empty_world_def)
  ultimately show ?thesis
    by (simp add: mk t)
qed

section \<open>Persisting the positions\<close>

text \<open>
  Claim C7 says that every tick persists every position exactly once, also in the
  branch for a closed market or a pending position, and that persisting an unchanged
  position again writes the same row. In that branch a quote of zero makes the loop go
  on to the next trader before \<open>update_position\<close>: a tick over the held position
  with the market closed and no quote returns without any upsert. And
  \<open>update_position\<close> stamps the row with the time of the write: two upserts of
  the same position in a row leave different rows.
\<close>

theorem closed_market_quote_failure_skips_upsert:
  "tick scenario_config (scenario_gateway 0 0 True False) (empty_world, [held_trader]) =
     Inr (empty_world\<lparr>calls := 3\<rparr>, [held_trader\<lparr>current_price := 0\<rparr>], 0)
   \<and> upserts (empty_world\<lparr>calls := 3\<rparr>) = []
   \<and> positions (update_position (scenario_gateway 60 50 True True) held_trader
        (update_position (scenario_gateway 60 50 True True) held_trader empty_world)) ''AAPL''
     \<noteq> positions (update_position (scenario_gateway 60 50 True True) held_trader empty_world)
         ''AAPL''"
  by (simp add: tick_def trade_one_def trade_branch_def quote_def step_def position_row_of_def
        scenario_defs)

text \<open>
  Claim C7 as amended: a turn of the loop body that returns persists its position
  exactly once, as the last upsert, with the fields the position then has, unless the
  quote lookup of the branch without orders gave zero, in which case it persists
  nothing; a pass over the traders that returns persists them in order, each at most
  once, and each exactly once when no quote is zero; \<open>update_position\<close> replaces the
  whole row under the symbol with the fields of the position and the time of the write,
  so that persisting the same position twice leaves the same row when the clock has not
  moved.
\<close>

theorem persisted_once_unless_skipped:
  "(trade_one cfg g xch_price (w, t) = Inr (w1, t1, b) \<longrightarrow>
      upserts w1 = upserts w @ (if quote_failed g w t then [] else [stock t])
      \<and> (\<not> quote_failed g w t \<longrightarrow>
            (\<exists>ts. positions w1 (stock t) = Some (position_row_of t1 ts))))
   \<and> (run_traders cfg g xch_price w traders bal = Inr (w2, traders2, bal2) \<longrightarrow>
        (\<exists>ps. upserts w2 = upserts w @ ps \<and> subseq ps (map stock traders))
        \<and> ((\<forall>n s. snd (get_stock_price_from_dinari g n s) \<noteq> 0) \<longrightarrow>
              upserts w2 = upserts w @ map stock traders))
   \<and> positions (update_position g t w) =
       (positions w)(stock t \<mapsto> position_row_of t (datetime_now g (calls w)))
   \<and> (datetime_now g (Suc (calls w)) = datetime_now g (calls w) \<longrightarrow>
        positions (update_position g t (update_position g t w)) =
        positions (update_position g t w))"
proof (intro conjI impI)
  assume "trade_one cfg g xch_price (w, t) = Inr (w1, t1, b)"
  from trade_one_returns [OF this]
  show "upserts w1 = upserts w @ (if quote_failed g w t then [] else [stock t])"
    and "\<not> quote_failed g w t \<Longrightarrow> \<exists>ts. positions w1 (stock t) = Some (position_row_of t1 ts)"
    by simp_all
next
  assume "run_traders cfg g xch_price w traders bal = Inr (w2, traders2, bal2)"
  then show "\<exists>ps. upserts w2 = upserts w @ ps \<and> subseq ps (map stock traders)"
    by (rule run_traders_upserts)
next
  assume "run_traders cfg g xch_price w traders bal = Inr (w2, traders2, bal2)"
    and "\<forall>n s. snd (get_stock_price_from_dinari g n s) \<noteq> 0"
  then show "upserts w2 = upserts w @ map stock traders"
    by (simp add: run_traders_all)
next
  show "positions (update_position g t w) =
       (positions w)(stock t \<mapsto> position_row_of t (datetime_now g (calls w)))"
    by simp
next
  assume "datetime_now g (Suc (calls w)) = datetime_now g (calls w)"
  then show "positions (update_position g t (update_position g t w)) =
        positions (update_position g t w)"
    by simp
qed

theorem persisted_once_unless_skipped_witness:
  "upserts (world_of (run_traders scenario_config (scenario_gateway 60 50 True False) 100
      empty_world [held_trader] 0)) = [''AAPL'']
   \<and> upserts (world_of (trade_one scenario_config (scenario_gateway 0 0 True False) 100
        (empty_world, held_trader))) = []
   \<and> positions (update_position ((scenario_gateway 60 50 True False)\<lparr>datetime_now := \<lambda>n. 7\<rparr>)
        held_trader
        (update_position ((scenario_gateway 60 50 True False)\<lparr>datetime_now := \<lambda>n. 7\<rparr>)
           held_trader empty_world)) =
     positions (update_position ((scenario_gateway 60 50 True False)\<lparr>datetime_now := \<lambda>n. 7\<rparr>)
        held_trader empty_world)"
proof -
  let ?g = "scenario_gateway 60 50 True False"
  let ?z = "scenario_gateway 0 0 True False"
  let ?c = "(scenario_gateway 60 50 True False)\<lparr>datetime_now := \<lambda>n. 7\<rparr>"
  let ?t1 = "held_trader\<lparr>current_price := 50, profit := 0\<rparr>"
  let ?w1 = "update_position ?g ?t1 (step (step empty_world))"
  have one: "trade_one scenario_config ?g 100 (empty_world, held_trader) = Inr (?w1, ?t1, 1000)"
    by (simp add: trade_one_def trade_branch_def quote_def holding_profit_eq py_div_def
          scenario_config_def scenario_gateway_def held_trader_def)
  then have run: "run_traders scenario_config ?g 100 empty_world [held_trader] 0 =
                  Inr (?w1, [?t1], 1000)"
    by simp
  have quotes: "\<forall>n s. snd (get_stock_price_from_dinari ?g n s) \<noteq> 0"
    by (simp add: scenario_gateway_def)
  have skip: "trade_one scenario_config ?z 100 (empty_world, held_trader) =
              Inr (step (step empty_world), held_trader\<lparr>current_price := 0\<rparr>, 0)"
    by (simp add: trade_one_def trade_branch_def quote_def scenario_config_def
          scenario_gateway_def held_trader_def)
  have failed: "quote_failed ?z empty_world held_trader"
    by (simp add: quote_failed_def scenario_gateway_def held_trader_def)
  have clock: "datetime_now ?c (Suc (calls empty_world)) = datetime_now ?c (calls empty_world)"
    by simp
  from persisted_once_unless_skipped [where g = ?g and cfg = scenario_config
      and xch_price = 100 and w = empty_world and traders = "[held_trader]" and bal = 0
      and ?w2.0 = ?w1 and ?traders2.0 = "[?t1]" and ?bal2.0 = 1000] run quotes
  have a: "upserts ?w1 = upserts empty_world @ map stock [held_trader]"
    by blast
  from persisted_once_unless_skipped [where g = ?z and cfg = scenario_config
      and xch_price = 100 and w = empty_world and t = held_trader
      and ?w1.0 = "step (step empty_world)" and ?t1.0 = "held_trader\<lparr>current_price := 0\<rparr>"
      and b = 0] skip failed
  have b: "upserts (step (step empty_world)) = upserts empty_world @ []"
    by simp
  from persisted_once_unless_skipped [where g = ?c and w = empty_world and t = held_trader]
    clock
  have c: "positions (update_position ?c held_trader (update_position ?c held_trader empty_world)) =
           positions (update_position ?c held_trader empty_world)"
    by blast
  show ?thesis
    unfolding run skip using a b c
    by (simp add: empty_world_def held_trader_def)
qed

end
